theory Spec2Isabelle
  imports Main "HOL-Library.Sublist"
begin

section \<open>The programs\<close>

text \<open>
  The repository holds four near-identical programs, each a \<^verbatim>\<open>package main\<close> with one
  \<^verbatim>\<open>convertToWebP\<close> handler:
  \<^item> \<open>Main_logging\<close>: the first program of \<^verbatim>\<open>src/main.go\<close> (logging, \<^verbatim>\<open>/debug\<close>,
    \<^verbatim>\<open>getCwebpPath\<close> falling back to the bare command \<^verbatim>\<open>cwebp\<close>);
  \<^item> \<open>Main_railway\<close>: the second program of \<^verbatim>\<open>src/main.go\<close> (\<^verbatim>\<open>getCwebpPath\<close> falling
    back to \<^verbatim>\<open>/app/libwebp/bin/cwebp\<close>);
  \<^item> \<open>Part_000\<close>: \<^verbatim>\<open>src/unnamed/part_000\<close> (no \<^verbatim>\<open>/health\<close>, \<^verbatim>\<open>LIBWEBP_PATH\<close> required,
    quality fixed);
  \<^item> \<open>Part_001\<close>: \<^verbatim>\<open>src/unnamed/part_001\<close> (CORS middleware, the bare command \<^verbatim>\<open>cwebp\<close>).
  A Go \<^verbatim>\<open>string\<close> and a \<^verbatim>\<open>[]byte\<close> are byte sequences: \<open>string\<close> here. A Go
  \<^verbatim>\<open>error\<close> is represented by its text (\<^verbatim>\<open>err.Error()\<close>); a call returning
  \<^verbatim>\<open>(T, error)\<close> has type \<open>string + T\<close> with \<open>Inl\<close> the error, a call returning only
  \<^verbatim>\<open>error\<close> has type \<open>string option\<close> with \<open>None\<close> for \<^verbatim>\<open>nil\<close>.
\<close>

datatype variant = Main_logging | Main_railway | Part_000 | Part_001

section \<open>Path functions of the Go library, as the handlers call them (Unix)\<close>

text \<open>
  \<^verbatim>\<open>filepath.Ext\<close>: scan from the last byte towards the first, stop at a path separator,
  return the suffix starting at the first dot met. The counter is the loop index plus one.
\<close>

fun ext_scan :: "string \<Rightarrow> nat \<Rightarrow> string" where
  "ext_scan path 0 = []"
| "ext_scan path (Suc i) =
     (if path ! i = CHR ''/'' then []
      else if path ! i = CHR ''.'' then drop i path
      else ext_scan path i)"

definition Ext :: "string \<Rightarrow> string" where
  "Ext path = ext_scan path (length path)"

text \<open>\<^verbatim>\<open>strings.HasPrefix\<close> and \<^verbatim>\<open>strings.Join(elems, "/")\<close>.\<close>

definition HasPrefix :: "string \<Rightarrow> string \<Rightarrow> bool" where
  "HasPrefix s p = (take (length p) s = p)"

fun join_sep :: "string list \<Rightarrow> string" where
  "join_sep [] = []"
| "join_sep [x] = x"
| "join_sep (x # y # ys) = x @ CHR ''/'' # join_sep (y # ys)"

text \<open>
  \<^verbatim>\<open>filepath.Clean\<close>, the lexical normal form of a path: the path is cut at its
  separators; empty elements and \<^verbatim>\<open>.\<close> are dropped; \<^verbatim>\<open>..\<close> removes the element before it,
  is dropped at the root, and is kept at the start of a path that is not rooted; the
  empty result is \<^verbatim>\<open>.\<close>.
\<close>

fun split_sep :: "string \<Rightarrow> string list" where
  "split_sep [] = [[]]"
| "split_sep (c # cs) =
     (if c = CHR ''/'' then [] # split_sep cs
      else (case split_sep cs of [] \<Rightarrow> [[c]] | e # es \<Rightarrow> (c # e) # es))"

fun clean_step :: "bool \<Rightarrow> string list \<Rightarrow> string \<Rightarrow> string list" where
  "clean_step rooted out e =
     (if e = [] \<or> e = ''.'' then out
      else if e = ''..'' then
        (if out \<noteq> [] \<and> last out \<noteq> ''..'' then butlast out
         else if rooted then out
         else out @ [e])
      else out @ [e])"

definition elements :: "string \<Rightarrow> string list" where
  "elements path = foldl (clean_step (HasPrefix path ''/'')) [] (split_sep path)"

definition Clean :: "string \<Rightarrow> string" where
  "Clean path =
     (let s = (if HasPrefix path ''/'' then ''/'' else []) @ join_sep (elements path)
      in if s = [] then ''.'' else s)"

text \<open>\<^verbatim>\<open>filepath.Join\<close>: from the first non-empty element on, joined with the separator, cleaned.\<close>

fun Join :: "string list \<Rightarrow> string" where
  "Join [] = []"
| "Join (e # es) = (if e \<noteq> [] then Clean (join_sep (e # es)) else Join es)"

declare Join.simps [simp del]

section \<open>Requests, responses, the operating system\<close>

record upload =
  Filename :: string
  Size :: int
  content :: string

text \<open>
  A request: method, path, the decoded URL query in order, and what
  \<^verbatim>\<open>c.Request.FormFile(name)\<close> returns for it.
\<close>

record request =
  reqMethod :: string
  reqPath :: string
  query :: "(string \<times> string) list"
  FormFile :: "string \<Rightarrow> string + upload"

text \<open>\<^verbatim>\<open>c.DefaultQuery\<close>: the first value of the key when the key is present (even empty).\<close>

definition DefaultQuery :: "request \<Rightarrow> string \<Rightarrow> string \<Rightarrow> string" where
  "DefaultQuery rq key defaultValue =
     (case map_of (query rq) key of Some v \<Rightarrow> v | None \<Rightarrow> defaultValue)"

text \<open>
  A response. \<^verbatim>\<open>gin.H\<close> values written by \<^verbatim>\<open>c.JSON\<close> are JSON objects whose values
  are all strings here; the pairs are listed by key, as the encoder writes them.
\<close>

datatype payload = JSON "(string \<times> string) list" | Data string | NoBody

record response =
  status :: nat
  headers :: "(string \<times> string) list"
  payload :: payload

definition header :: "response \<Rightarrow> string \<Rightarrow> string option" where
  "header r k = map_of (headers r) k"

definition c_JSON :: "nat \<Rightarrow> (string \<times> string) list \<Rightarrow> response" where
  "c_JSON code obj =
     \<lparr>status = code,
      headers = [(''Content-Type'', ''application/json; charset=utf-8'')],
      payload = JSON obj\<rparr>"

text \<open>
  What the operating system answers to the calls of one request. Each call's answer
  is a function of the call's arguments; the handlers decide nothing about it.
  \<open>Written w cmd args\<close> lists the paths the subprocess \<open>cmd args\<close> leaves on disk: the
  handlers never see it, the file system below does.
\<close>

record world =
  Getenv :: "string \<Rightarrow> string"
  Getwd :: "string + string"
  MkdirTemp :: "string \<Rightarrow> string \<Rightarrow> string + string"
  Create :: "string \<Rightarrow> string option"
  Copy :: "string \<Rightarrow> string \<Rightarrow> string option"
  CombinedOutput :: "string \<Rightarrow> string list \<Rightarrow> string \<times> string option"
  ReadFile :: "string \<Rightarrow> string + string"
  Written :: "string \<Rightarrow> string list \<Rightarrow> string list"

text \<open>
  The calls a handler makes, in order, with their outcome where there is one
  (\<open>True\<close>: the call returned no error).
\<close>

datatype logarg = S string | I int

datatype event =
    Log string "logarg list"
  | OsGetenv string
  | OsGetwd bool
  | OsMkdirTemp string string "string option"
  | OsCreate string bool
  | IoCopy string bool
  | FileClose string
  | ExecCombinedOutput string "string list" bool
  | OsReadFile string bool
  | OsRemoveAll string
  | UploadClose

section \<open>The handlers\<close>

text \<open>\<^verbatim>\<open>filenameWithoutExt\<close>, the same in the four programs.\<close>

definition filenameWithoutExt :: "string \<Rightarrow> string" where
  "filenameWithoutExt filename = take (length filename - length (Ext filename)) filename"

text \<open>The local \<^verbatim>\<open>outputFilename\<close> of \<^verbatim>\<open>convertToWebP\<close>.\<close>

definition outputFilename :: "string \<Rightarrow> string" where
  "outputFilename filename = filenameWithoutExt filename @ ''.webp''"

text \<open>
  \<^verbatim>\<open>getCwebpPath\<close> of the two programs of \<^verbatim>\<open>src/main.go\<close>; they differ in the last
  \<^verbatim>\<open>return\<close> only, which is the parameter \<open>fallback\<close>.
\<close>

definition getCwebpPath :: "string \<Rightarrow> world \<Rightarrow> (string + string) \<times> event list" where
  "getCwebpPath fallback w =
     (let libwebpPath = Getenv w ''LIBWEBP_PATH'' in
      if libwebpPath \<noteq> [] then
        if HasPrefix libwebpPath ''/'' then
          (Inr (Join [libwebpPath, ''bin'', ''cwebp'']), [OsGetenv ''LIBWEBP_PATH''])
        else
          (case Getwd w of
             Inl err \<Rightarrow>
               (Inl (''failed to get working directory: '' @ err),
                [OsGetenv ''LIBWEBP_PATH'', OsGetwd False])
           | Inr workDir \<Rightarrow>
               (Inr (Join [workDir, libwebpPath, ''bin'', ''cwebp'']),
                [OsGetenv ''LIBWEBP_PATH'', OsGetwd True]))
      else (Inr fallback, [OsGetenv ''LIBWEBP_PATH'']))"

definition logf :: "variant \<Rightarrow> string \<Rightarrow> logarg list \<Rightarrow> event list" where
  "logf v fmt args = (if v = Main_logging then [Log fmt args] else [])"

text \<open>
  Where the encoder is, per program: the path, or the response of the early return.
\<close>

fun cwebpPath :: "variant \<Rightarrow> world \<Rightarrow> (response + string) \<times> event list" where
  "cwebpPath Main_logging w =
     (case getCwebpPath ''cwebp'' w of
        (Inl err, evs) \<Rightarrow>
          (Inl (c_JSON 500 [(''error'', err)]),
           evs @ logf Main_logging ''Error getting cwebp path: %v'' [S err])
      | (Inr p, evs) \<Rightarrow> (Inr p, evs))"
| "cwebpPath Main_railway w =
     (case getCwebpPath ''/app/libwebp/bin/cwebp'' w of
        (Inl err, evs) \<Rightarrow> (Inl (c_JSON 500 [(''error'', err)]), evs)
      | (Inr p, evs) \<Rightarrow> (Inr p, evs))"
| "cwebpPath Part_000 w =
     (let libwebpPath = Getenv w ''LIBWEBP_PATH'' in
      if libwebpPath = [] then
        (Inl (c_JSON 500 [(''error'', ''LIBWEBP_PATH environment variable not set'')]),
         [OsGetenv ''LIBWEBP_PATH''])
      else
        (case Getwd w of
           Inl err \<Rightarrow>
             (Inl (c_JSON 500 [(''error'', ''Failed to get working directory'')]),
              [OsGetenv ''LIBWEBP_PATH'', OsGetwd False])
         | Inr workDir \<Rightarrow>
             (Inr (Join [workDir, libwebpPath, ''bin'', ''cwebp'']),
              [OsGetenv ''LIBWEBP_PATH'', OsGetwd True])))"
| "cwebpPath Part_001 w = (Inr ''cwebp'', [])"

text \<open>The value of the \<^verbatim>\<open>-q\<close> argument: \<^verbatim>\<open>part_000\<close> writes the literal.\<close>

definition quality :: "variant \<Rightarrow> request \<Rightarrow> string" where
  "quality v rq = (if v = Part_000 then ''80'' else DefaultQuery rq ''quality'' ''80'')"

text \<open>From \<^verbatim>\<open>exec.Command\<close> to the end of \<^verbatim>\<open>convertToWebP\<close>.\<close>

definition runCwebp ::
  "variant \<Rightarrow> world \<Rightarrow> string \<Rightarrow> string \<Rightarrow> string \<Rightarrow> string \<Rightarrow> string \<Rightarrow> response \<times> event list"
where
  "runCwebp v w cwebp q inputPath outputPath outName =
     (let args = [''-q'', q, inputPath, ''-o'', outputPath] in
      case CombinedOutput w cwebp args of
        (output, Some err) \<Rightarrow>
          (c_JSON 500 [(''details'', output), (''error'', ''Failed to convert image'')],
           [ExecCombinedOutput cwebp args False]
           @ logf v ''Error converting image: %v, output: %s'' [S err, S output])
      | (output, None) \<Rightarrow>
          (case ReadFile w outputPath of
             Inl err \<Rightarrow>
               (c_JSON 500 [(''error'', ''Failed to read converted file'')],
                [ExecCombinedOutput cwebp args True]
                @ logf v ''Conversion successful, reading output file'' []
                @ [OsReadFile outputPath False]
                @ logf v ''Error reading converted file: %v'' [S err])
           | Inr webpData \<Rightarrow>
               (\<lparr>status = 200,
                 headers = [(''Content-Disposition'', ''attachment; filename='' @ outName),
                            (''Content-Type'', ''image/webp'')],
                 payload = Data webpData\<rparr>,
                [ExecCombinedOutput cwebp args True]
                @ logf v ''Conversion successful, reading output file'' []
                @ [OsReadFile outputPath True]
                @ logf v ''Sending WebP file: %s, size: %d bytes''
                    [S outName, I (int (length webpData))])))"

text \<open>
  The part of \<^verbatim>\<open>convertToWebP\<close> that runs with the temporary directory in place: from
  \<^verbatim>\<open>inputPath := ...\<close> on.
\<close>

definition inTempDir ::
  "variant \<Rightarrow> world \<Rightarrow> request \<Rightarrow> upload \<Rightarrow> string \<Rightarrow> response \<times> event list"
where
  "inTempDir v w rq up tempDir =
     (let inputPath = Join [tempDir, Filename up] in
      case Create w inputPath of
        Some err \<Rightarrow>
          (c_JSON 500 [(''error'', ''Failed to save uploaded file'')],
           [OsCreate inputPath False] @ logf v ''Error creating input file: %v'' [S err])
      | None \<Rightarrow>
          (case Copy w inputPath (content up) of
             Some err \<Rightarrow>
               (c_JSON 500 [(''error'', ''Failed to copy uploaded file'')],
                [OsCreate inputPath True, IoCopy inputPath False, FileClose inputPath]
                @ logf v ''Error copying file: %v'' [S err])
           | None \<Rightarrow>
               (let outName = outputFilename (Filename up);
                    outputPath = Join [tempDir, outName]
                in case cwebpPath v w of
                     (Inl resp, evs) \<Rightarrow>
                       (resp,
                        [OsCreate inputPath True, IoCopy inputPath True, FileClose inputPath]
                        @ evs)
                   | (Inr cwebp, evs) \<Rightarrow>
                       (let q = quality v rq;
                            (resp, evs') = runCwebp v w cwebp q inputPath outputPath outName
                        in (resp,
                            [OsCreate inputPath True, IoCopy inputPath True, FileClose inputPath]
                            @ evs
                            @ logf v ''Converting %s to WebP with quality %s using %s''
                                [S inputPath, S q, S cwebp]
                            @ evs')))))"

text \<open>
  \<^verbatim>\<open>convertToWebP\<close>. The two \<^verbatim>\<open>defer\<close>s run when the function returns, the later one
  first: \<^verbatim>\<open>os.RemoveAll(tempDir)\<close>, then \<^verbatim>\<open>file.Close()\<close>.
\<close>

definition convertToWebP :: "variant \<Rightarrow> world \<Rightarrow> request \<Rightarrow> response \<times> event list" where
  "convertToWebP v w rq =
     (case FormFile rq ''image'' of
        Inl err \<Rightarrow>
          (c_JSON 400 [(''error'', ''No image file provided'')],
           logf v ''Error getting form file: %v'' [S err])
      | Inr up \<Rightarrow>
          (let (resp, evs) =
             (case MkdirTemp w [] ''webp-convert-*'' of
                Inl err \<Rightarrow>
                  (c_JSON 500 [(''error'', ''Failed to create temp directory'')],
                   [OsMkdirTemp [] ''webp-convert-*'' None]
                   @ logf v ''Error creating temp directory: %v'' [S err])
              | Inr tempDir \<Rightarrow>
                  (let (resp, evs) = inTempDir v w rq up tempDir
                   in (resp,
                       [OsMkdirTemp [] ''webp-convert-*'' (Some tempDir)]
                       @ evs @ [OsRemoveAll tempDir])))
           in (resp,
               logf v ''Received file: %s, size: %d'' [S (Filename up), I (Size up)]
               @ evs @ [UploadClose])))"

text \<open>The \<^verbatim>\<open>/health\<close> handler.\<close>

definition healthHandler :: "response \<times> event list" where
  "healthHandler = (c_JSON 200 [(''status'', ''ok'')], [])"

section \<open>The router\<close>

datatype handler = Health | Debug | Convert

record engine =
  MaxMultipartMemory :: int
  cors :: bool
  routes :: "((string \<times> string) \<times> handler) list"

text \<open>\<^verbatim>\<open>gin.Default()\<close>: the engine before \<^verbatim>\<open>main\<close> changes it (32 MiB, no routes).\<close>

definition gin_Default :: engine where
  "gin_Default = \<lparr>MaxMultipartMemory = push_bit 20 32, cors = False, routes = []\<rparr>"

definition GET :: "string \<Rightarrow> handler \<Rightarrow> engine \<Rightarrow> engine" where
  "GET p h e = e\<lparr>routes := routes e @ [((''GET'', p), h)]\<rparr>"

definition POST :: "string \<Rightarrow> handler \<Rightarrow> engine \<Rightarrow> engine" where
  "POST p h e = e\<lparr>routes := routes e @ [((''POST'', p), h)]\<rparr>"

text \<open>
  \<^verbatim>\<open>main\<close> up to \<^verbatim>\<open>router.Run\<close>: the engine that \<^verbatim>\<open>Run\<close> serves with, and the
  address it listens on. The statements are applied in the order of the source.
\<close>

fun router :: "variant \<Rightarrow> engine" where
  "router Main_logging =
     (POST ''/convert'' Convert \<circ> GET ''/debug'' Debug \<circ> GET ''/health'' Health)
       (gin_Default\<lparr>MaxMultipartMemory := push_bit 20 10\<rparr>)"
| "router Main_railway =
     (POST ''/convert'' Convert \<circ> GET ''/health'' Health)
       (gin_Default\<lparr>MaxMultipartMemory := push_bit 20 10\<rparr>)"
| "router Part_000 =
     POST ''/convert'' Convert (gin_Default\<lparr>MaxMultipartMemory := push_bit 20 10\<rparr>)"
| "router Part_001 =
     (POST ''/convert'' Convert \<circ> GET ''/health'' Health)
       (gin_Default\<lparr>cors := True, MaxMultipartMemory := push_bit 20 10\<rparr>)"

definition addr :: "variant \<Rightarrow> world \<Rightarrow> string" where
  "addr v w =
     (if v = Part_000 then '':8080''
      else (let port = Getenv w ''PORT'' in '':'' @ (if port = [] then ''8080'' else port)))"

text \<open>The CORS middleware of \<^verbatim>\<open>part_001\<close>, around whatever handles the request.\<close>

definition corsHeaders :: "(string \<times> string) list" where
  "corsHeaders =
     [(''Access-Control-Allow-Origin'', ''*''),
      (''Access-Control-Allow-Methods'', ''GET, POST, OPTIONS''),
      (''Access-Control-Allow-Headers'', ''Content-Type'')]"

definition middleware ::
  "engine \<Rightarrow> request \<Rightarrow> response \<times> event list \<Rightarrow> response \<times> event list"
where
  "middleware e rq next =
     (if cors e then
        (if reqMethod rq = ''OPTIONS'' then
           (\<lparr>status = 204, headers = corsHeaders, payload = NoBody\<rparr>, [])
         else (let (r, evs) = next in (r\<lparr>headers := corsHeaders @ headers r\<rparr>, evs)))
      else next)"

text \<open>The framework's answer when no route matches.\<close>

definition notFound :: "response \<times> event list" where
  "notFound =
     (\<lparr>status = 404, headers = [(''Content-Type'', ''text/plain'')],
       payload = Data ''404 page not found''\<rparr>, [])"

text \<open>
  Serving one request. The \<^verbatim>\<open>/debug\<close> handler of the first program is the parameter
  \<open>debugHandler\<close>.
\<close>

definition serve ::
  "(world \<Rightarrow> response \<times> event list) \<Rightarrow> variant \<Rightarrow> world \<Rightarrow> request \<Rightarrow> response \<times> event list"
where
  "serve debugHandler v w rq =
     middleware (router v) rq
       (case map_of (routes (router v)) (reqMethod rq, reqPath rq) of
          None \<Rightarrow> notFound
        | Some Health \<Rightarrow> healthHandler
        | Some Debug \<Rightarrow> debugHandler w
        | Some Convert \<Rightarrow> convertToWebP v w rq)"

section \<open>The file system behind the calls\<close>

text \<open>
  Paths are compared lexically, as \<^verbatim>\<open>filepath.Clean\<close> normalises them: \<open>inside dir p\<close>
  holds when \<open>p\<close> names \<open>dir\<close> itself or something below it. \<open>cleaned\<close> is what the
  elements of a normalised path are like: none is empty or \<^verbatim>\<open>.\<close> or holds a separator,
  and \<^verbatim>\<open>..\<close> stands only at the start of a path that is not rooted. The file system is the list
  of the paths that exist. \<^verbatim>\<open>os.MkdirTemp\<close> and \<^verbatim>\<open>os.Create\<close> add their path when they
  succeed, the subprocess adds what it writes, \<^verbatim>\<open>os.RemoveAll\<close> removes the directory
  and everything below it, and the other calls change nothing.
\<close>

definition cleaned :: "bool \<Rightarrow> string list \<Rightarrow> bool" where
  "cleaned rooted es =
     ((\<forall>e \<in> set es. e \<noteq> [] \<and> e \<noteq> ''.'' \<and> CHR ''/'' \<notin> set e)
      \<and> ''..'' \<notin> set (dropWhile (\<lambda>e. e = ''..'') es)
      \<and> (rooted \<longrightarrow> ''..'' \<notin> set es))"

definition inside :: "string \<Rightarrow> string \<Rightarrow> bool" where
  "inside dir p = (HasPrefix p ''/'' = HasPrefix dir ''/'' \<and> prefix (elements dir) (elements p))"

fun added :: "world \<Rightarrow> event \<Rightarrow> string list" where
  "added w (OsMkdirTemp dir pattern (Some d)) = [d]"
| "added w (OsCreate p True) = [p]"
| "added w (ExecCombinedOutput cmd args ok) = Written w cmd args"
| "added w e = []"

fun fs_step :: "world \<Rightarrow> string list \<Rightarrow> event \<Rightarrow> string list" where
  "fs_step w fs (OsRemoveAll d) = filter (\<lambda>p. \<not> inside d p) fs"
| "fs_step w fs e = added w e @ fs"

definition fs_run :: "world \<Rightarrow> string list \<Rightarrow> event list \<Rightarrow> string list" where
  "fs_run w fs evs = foldl (fs_step w) fs evs"

text \<open>A file name that is one path element: what a multipart upload carries.\<close>

definition plain :: "string \<Rightarrow> bool" where
  "plain name = (name \<noteq> [] \<and> CHR ''/'' \<notin> set name \<and> name \<noteq> ''.'' \<and> name \<noteq> ''..'')"

text \<open>Calls that only look something up or write to the log.\<close>

fun lookup :: "event \<Rightarrow> bool" where
  "lookup (Log fmt args) = True"
| "lookup (OsGetenv k) = True"
| "lookup (OsGetwd ok) = True"
| "lookup e = False"

text \<open>Calls that returned an error.\<close>

fun failed :: "event \<Rightarrow> bool" where
  "failed (OsGetwd ok) = (\<not> ok)"
| "failed (OsMkdirTemp dir pattern created) = (created = None)"
| "failed (OsCreate p ok) = (\<not> ok)"
| "failed (IoCopy p ok) = (\<not> ok)"
| "failed (ExecCombinedOutput cmd args ok) = (\<not> ok)"
| "failed (OsReadFile p ok) = (\<not> ok)"
| "failed e = False"

section \<open>Sample requests and worlds\<close>

text \<open>
  A world in which every call succeeds and the encoder writes four bytes to its output
  path; \<open>env\<close> is the process environment.
\<close>

definition sample_world :: "(string \<Rightarrow> string) \<Rightarrow> world" where
  "sample_world env =
     \<lparr>Getenv = env,
      Getwd = Inr ''/app'',
      MkdirTemp = (\<lambda>dir pattern. Inr ''/tmp/webp-convert-1234''),
      Create = (\<lambda>p. None),
      Copy = (\<lambda>p bytes. None),
      CombinedOutput = (\<lambda>cmd args. (''Saving file'', None)),
      ReadFile = (\<lambda>p. Inr ''RIFF''),
      Written = (\<lambda>cmd args. drop 4 args)\<rparr>"

definition no_env :: "string \<Rightarrow> string" where
  "no_env k = []"

definition libwebp_env :: "string \<Rightarrow> string \<Rightarrow> string" where
  "libwebp_env dir k = (if k = ''LIBWEBP_PATH'' then dir else [])"

text \<open>The same world with an encoder that exits with an error.\<close>

definition failing_world :: world where
  "failing_world =
     (sample_world no_env)\<lparr>CombinedOutput := (\<lambda>cmd args. (''cannot open input'', Some ''exit status 255''))\<rparr>"


definition sample_upload :: upload where
  "sample_upload = \<lparr>Filename = ''photo.JPG'', Size = 4, content = ''JFIF''\<rparr>"

text \<open>\<^verbatim>\<open>POST /convert?quality=50\<close> with \<^verbatim>\<open>photo.JPG\<close> in the field \<^verbatim>\<open>image\<close>.\<close>

definition sample_request :: request where
  "sample_request =
     \<lparr>reqMethod = ''POST'', reqPath = ''/convert'', query = [(''quality'', ''50'')],
      FormFile = (\<lambda>name. if name = ''image'' then Inr sample_upload
                          else Inl ''http: no such file'')\<rparr>"

text \<open>\<^verbatim>\<open>POST /convert\<close> with no file in the form.\<close>

definition empty_request :: request where
  "empty_request =
     \<lparr>reqMethod = ''POST'', reqPath = ''/convert'', query = [],
      FormFile = (\<lambda>name. Inl ''http: no such file'')\<rparr>"

text \<open>\<^verbatim>\<open>GET /health\<close>.\<close>

definition health_request :: request where
  "health_request =
     \<lparr>reqMethod = ''GET'', reqPath = ''/health'', query = [],
      FormFile = (\<lambda>name. Inl ''request Content-Type isn't multipart/form-data'')\<rparr>"

section \<open>Properties\<close>

subsection \<open>The extension of a file name\<close>

text \<open>The scan passes over bytes that are neither a dot nor a separator.\<close>

lemma ext_scan_skip:
  "n \<le> m \<Longrightarrow> \<forall>i. n \<le> i \<and> i < m \<longrightarrow> path ! i \<noteq> CHR ''.'' \<and> path ! i \<noteq> CHR ''/''
   \<Longrightarrow> ext_scan path m = ext_scan path n"
proof (induction m)
  case 0
  then show ?case by simp
next
  case (Suc m)
  show ?case
  proof (cases "n = Suc m")
    case True
    then show ?thesis by simp
  next
    case False
    with Suc.prems have le: "n \<le> m" by simp
    from Suc.prems le have "path ! m \<noteq> CHR ''.'' \<and> path ! m \<noteq> CHR ''/''" by simp
    moreover have "ext_scan path m = ext_scan path n"
      using Suc.IH [OF le] Suc.prems(2) by simp
    ultimately show ?thesis by simp
  qed
qed

lemma Ext_dot:
  assumes "CHR ''.'' \<notin> set e" "CHR ''/'' \<notin> set e"
  shows "Ext (stem @ CHR ''.'' # e) = CHR ''.'' # e"
proof -
  let ?p = "stem @ CHR ''.'' # e"
  have "\<forall>i. Suc (length stem) \<le> i \<and> i < length ?p \<longrightarrow> ?p ! i \<noteq> CHR ''.'' \<and> ?p ! i \<noteq> CHR ''/''"
  proof (intro allI impI)
    fix i assume i: "Suc (length stem) \<le> i \<and> i < length ?p"
    then have "?p ! i = e ! (i - Suc (length stem))"
      by (simp add: nth_append nth_Cons')
    moreover have "e ! (i - Suc (length stem)) \<in> set e"
      using i by (intro nth_mem) auto
    ultimately show "?p ! i \<noteq> CHR ''.'' \<and> ?p ! i \<noteq> CHR ''/''"
      using assms by metis
  qed
  then have "ext_scan ?p (length ?p) = ext_scan ?p (Suc (length stem))"
    by (intro ext_scan_skip) simp_all
  then show ?thesis by (simp add: Ext_def)
qed

lemma Ext_no_dot:
  assumes "CHR ''.'' \<notin> set b" "CHR ''/'' \<notin> set b" "d = [] \<or> last d = CHR ''/''"
  shows "Ext (d @ b) = []"
proof -
  let ?p = "d @ b"
  have "\<forall>i. length d \<le> i \<and> i < length ?p \<longrightarrow> ?p ! i \<noteq> CHR ''.'' \<and> ?p ! i \<noteq> CHR ''/''"
  proof (intro allI impI)
    fix i assume i: "length d \<le> i \<and> i < length ?p"
    then have "?p ! i = b ! (i - length d)"
      by (simp add: nth_append)
    moreover have "b ! (i - length d) \<in> set b"
      using i by (intro nth_mem) auto
    ultimately show "?p ! i \<noteq> CHR ''.'' \<and> ?p ! i \<noteq> CHR ''/''"
      using assms by metis
  qed
  then have eq: "ext_scan ?p (length ?p) = ext_scan ?p (length d)"
    by (intro ext_scan_skip) simp_all
  have "ext_scan ?p (length d) = []"
  proof (cases d rule: rev_cases)
    case Nil
    then show ?thesis by simp
  next
    case (snoc ys y)
    with assms(3) have "y = CHR ''/''" by simp
    with snoc show ?thesis by (simp add: nth_append)
  qed
  with eq show ?thesis by (simp add: Ext_def)
qed

lemma outputFilename_dot:
  "CHR ''.'' \<notin> set e \<Longrightarrow> CHR ''/'' \<notin> set e \<Longrightarrow>
   outputFilename (stem @ CHR ''.'' # e) = stem @ ''.webp''"
  by (simp add: outputFilename_def filenameWithoutExt_def Ext_dot)

lemma outputFilename_no_dot:
  "CHR ''.'' \<notin> set b \<Longrightarrow> CHR ''/'' \<notin> set b \<Longrightarrow> d = [] \<or> last d = CHR ''/'' \<Longrightarrow>
   outputFilename (d @ b) = d @ b @ ''.webp''"
  by (simp add: outputFilename_def filenameWithoutExt_def Ext_no_dot)


subsection \<open>The log\<close>

lemma logf_mem [simp]: "e \<in> set (logf v fmt args) \<longleftrightarrow> v = Main_logging \<and> e = Log fmt args"
  by (auto simp: logf_def)

subsection \<open>Where the encoder is\<close>

lemma HasPrefix_nonempty: "HasPrefix s ''/'' \<Longrightarrow> s \<noteq> []"
  by (auto simp: HasPrefix_def)

lemma getCwebpPath_absolute:
  "HasPrefix (Getenv w ''LIBWEBP_PATH'') ''/'' \<Longrightarrow>
   getCwebpPath fallback w
     = (Inr (Join [Getenv w ''LIBWEBP_PATH'', ''bin'', ''cwebp'']), [OsGetenv ''LIBWEBP_PATH''])"
  by (simp add: getCwebpPath_def Let_def HasPrefix_nonempty)

lemma getCwebpPath_relative:
  "Getenv w ''LIBWEBP_PATH'' \<noteq> [] \<Longrightarrow> \<not> HasPrefix (Getenv w ''LIBWEBP_PATH'') ''/'' \<Longrightarrow>
   Getwd w = Inr workDir \<Longrightarrow>
   getCwebpPath fallback w
     = (Inr (Join [workDir, Getenv w ''LIBWEBP_PATH'', ''bin'', ''cwebp'']),
        [OsGetenv ''LIBWEBP_PATH'', OsGetwd True])"
  by (simp add: getCwebpPath_def Let_def)

lemma getCwebpPath_unset:
  "Getenv w ''LIBWEBP_PATH'' = [] \<Longrightarrow>
   getCwebpPath fallback w = (Inr fallback, [OsGetenv ''LIBWEBP_PATH''])"
  by (simp add: getCwebpPath_def Let_def)

lemma getCwebpPath_lookup:
  "getCwebpPath fallback w = (loc, evs) \<Longrightarrow> e \<in> set evs \<Longrightarrow> lookup e"
  by (auto simp: getCwebpPath_def Let_def split: if_splits sum.splits)

lemma cwebpPath_lookup:
  "cwebpPath v w = (loc, evs) \<Longrightarrow> e \<in> set evs \<Longrightarrow> lookup e"
proof (cases v)
  case Main_logging
  assume "cwebpPath v w = (loc, evs)" "e \<in> set evs"
  with Main_logging show ?thesis
    by (cases "getCwebpPath ''cwebp'' w")
      (auto simp: logf_def split: sum.splits dest: getCwebpPath_lookup)
next
  case Main_railway
  assume "cwebpPath v w = (loc, evs)" "e \<in> set evs"
  with Main_railway show ?thesis
    by (cases "getCwebpPath ''/app/libwebp/bin/cwebp'' w")
      (auto split: sum.splits dest: getCwebpPath_lookup)
next
  case Part_000
  assume "cwebpPath v w = (loc, evs)" "e \<in> set evs"
  with Part_000 show ?thesis
    by (auto simp: Let_def split: if_splits sum.splits)
next
  case Part_001
  assume "cwebpPath v w = (loc, evs)" "e \<in> set evs"
  with Part_001 show ?thesis by simp
qed

lemma cwebpPath_Inl:
  "cwebpPath v w = (Inl resp, evs) \<Longrightarrow> \<exists>msg. resp = c_JSON 500 [(''error'', msg)]"
proof (cases v)
  case Main_logging
  assume "cwebpPath v w = (Inl resp, evs)"
  with Main_logging show ?thesis
    by (cases "getCwebpPath ''cwebp'' w") (auto split: sum.splits)
next
  case Main_railway
  assume "cwebpPath v w = (Inl resp, evs)"
  with Main_railway show ?thesis
    by (cases "getCwebpPath ''/app/libwebp/bin/cwebp'' w") (auto split: sum.splits)
next
  case Part_000
  assume "cwebpPath v w = (Inl resp, evs)"
  with Part_000 show ?thesis
    by (auto simp: Let_def split: if_splits sum.splits)
next
  case Part_001
  assume "cwebpPath v w = (Inl resp, evs)"
  with Part_001 show ?thesis by simp
qed

lemma cwebpPath_Inr_not_failed:
  "cwebpPath v w = (Inr p, evs) \<Longrightarrow> e \<in> set evs \<Longrightarrow> \<not> failed e"
proof (cases v)
  case Main_logging
  assume "cwebpPath v w = (Inr p, evs)" "e \<in> set evs"
  with Main_logging show ?thesis
    by (cases "getCwebpPath ''cwebp'' w")
      (auto simp: getCwebpPath_def Let_def split: sum.splits if_splits)
next
  case Main_railway
  assume "cwebpPath v w = (Inr p, evs)" "e \<in> set evs"
  with Main_railway show ?thesis
    by (cases "getCwebpPath ''/app/libwebp/bin/cwebp'' w")
      (auto simp: getCwebpPath_def Let_def split: sum.splits if_splits)
next
  case Part_000
  assume "cwebpPath v w = (Inr p, evs)" "e \<in> set evs"
  with Part_000 show ?thesis
    by (auto simp: Let_def split: if_splits sum.splits)
next
  case Part_001
  assume "cwebpPath v w = (Inr p, evs)" "e \<in> set evs"
  with Part_001 show ?thesis by simp
qed

subsection \<open>The ways through the handler\<close>

lemma runCwebp_failed:
  "CombinedOutput w cwebp [''-q'', q, inp, ''-o'', outp] = (output, Some err) \<Longrightarrow>
   runCwebp v w cwebp q inp outp outName =
     (c_JSON 500 [(''details'', output), (''error'', ''Failed to convert image'')],
      [ExecCombinedOutput cwebp [''-q'', q, inp, ''-o'', outp] False]
      @ logf v ''Error converting image: %v, output: %s'' [S err, S output])"
  by (simp add: runCwebp_def)

lemma runCwebp_unreadable:
  "CombinedOutput w cwebp [''-q'', q, inp, ''-o'', outp] = (output, None) \<Longrightarrow>
   ReadFile w outp = Inl err \<Longrightarrow>
   runCwebp v w cwebp q inp outp outName =
     (c_JSON 500 [(''error'', ''Failed to read converted file'')],
      [ExecCombinedOutput cwebp [''-q'', q, inp, ''-o'', outp] True]
      @ logf v ''Conversion successful, reading output file'' []
      @ [OsReadFile outp False]
      @ logf v ''Error reading converted file: %v'' [S err])"
  by (simp add: runCwebp_def)

lemma runCwebp_ok:
  "CombinedOutput w cwebp [''-q'', q, inp, ''-o'', outp] = (output, None) \<Longrightarrow>
   ReadFile w outp = Inr webpData \<Longrightarrow>
   runCwebp v w cwebp q inp outp outName =
     (\<lparr>status = 200,
       headers = [(''Content-Disposition'', ''attachment; filename='' @ outName),
                  (''Content-Type'', ''image/webp'')],
       payload = Data webpData\<rparr>,
      [ExecCombinedOutput cwebp [''-q'', q, inp, ''-o'', outp] True]
      @ logf v ''Conversion successful, reading output file'' []
      @ [OsReadFile outp True]
      @ logf v ''Sending WebP file: %s, size: %d bytes'' [S outName, I (int (length webpData))])"
  by (simp add: runCwebp_def)


text \<open>
  Every run of \<open>convertToWebP\<close> is one of eight: the first step that fails decides the
  response, and each run is given with its response and its calls.
\<close>

lemma convertToWebP_cases
  [case_names NoImage NoTempDir NoCreate NoCopy NoCwebp Failed Unreadable Converted]:
  obtains
    (NoImage) err where
      "FormFile rq ''image'' = Inl err"
      "convertToWebP v w rq =
         (c_JSON 400 [(''error'', ''No image file provided'')],
          logf v ''Error getting form file: %v'' [S err])"
  | (NoTempDir) up err where
      "FormFile rq ''image'' = Inr up"
      "MkdirTemp w [] ''webp-convert-*'' = Inl err"
      "convertToWebP v w rq =
         (c_JSON 500 [(''error'', ''Failed to create temp directory'')],
          logf v ''Received file: %s, size: %d'' [S (Filename up), I (Size up)]
          @ [OsMkdirTemp [] ''webp-convert-*'' None]
          @ logf v ''Error creating temp directory: %v'' [S err]
          @ [UploadClose])"
  | (NoCreate) up tempDir err where
      "FormFile rq ''image'' = Inr up"
      "MkdirTemp w [] ''webp-convert-*'' = Inr tempDir"
      "Create w (Join [tempDir, Filename up]) = Some err"
      "convertToWebP v w rq =
         (c_JSON 500 [(''error'', ''Failed to save uploaded file'')],
          logf v ''Received file: %s, size: %d'' [S (Filename up), I (Size up)]
          @ [OsMkdirTemp [] ''webp-convert-*'' (Some tempDir),
             OsCreate (Join [tempDir, Filename up]) False]
          @ logf v ''Error creating input file: %v'' [S err]
          @ [OsRemoveAll tempDir, UploadClose])"
  | (NoCopy) up tempDir err where
      "FormFile rq ''image'' = Inr up"
      "MkdirTemp w [] ''webp-convert-*'' = Inr tempDir"
      "Create w (Join [tempDir, Filename up]) = None"
      "Copy w (Join [tempDir, Filename up]) (content up) = Some err"
      "convertToWebP v w rq =
         (c_JSON 500 [(''error'', ''Failed to copy uploaded file'')],
          logf v ''Received file: %s, size: %d'' [S (Filename up), I (Size up)]
          @ [OsMkdirTemp [] ''webp-convert-*'' (Some tempDir),
             OsCreate (Join [tempDir, Filename up]) True,
             IoCopy (Join [tempDir, Filename up]) False,
             FileClose (Join [tempDir, Filename up])]
          @ logf v ''Error copying file: %v'' [S err]
          @ [OsRemoveAll tempDir, UploadClose])"
  | (NoCwebp) up tempDir msg evs where
      "FormFile rq ''image'' = Inr up"
      "MkdirTemp w [] ''webp-convert-*'' = Inr tempDir"
      "Create w (Join [tempDir, Filename up]) = None"
      "Copy w (Join [tempDir, Filename up]) (content up) = None"
      "cwebpPath v w = (Inl (c_JSON 500 [(''error'', msg)]), evs)"
      "\<forall>e. \<not> lookup e \<longrightarrow> e \<notin> set evs"
      "convertToWebP v w rq =
         (c_JSON 500 [(''error'', msg)],
          logf v ''Received file: %s, size: %d'' [S (Filename up), I (Size up)]
          @ [OsMkdirTemp [] ''webp-convert-*'' (Some tempDir),
             OsCreate (Join [tempDir, Filename up]) True,
             IoCopy (Join [tempDir, Filename up]) True,
             FileClose (Join [tempDir, Filename up])]
          @ evs
          @ [OsRemoveAll tempDir, UploadClose])"
  | (Failed) up tempDir cwebp evs combined err where
      "FormFile rq ''image'' = Inr up"
      "MkdirTemp w [] ''webp-convert-*'' = Inr tempDir"
      "Create w (Join [tempDir, Filename up]) = None"
      "Copy w (Join [tempDir, Filename up]) (content up) = None"
      "cwebpPath v w = (Inr cwebp, evs)"
      "\<forall>e. \<not> lookup e \<or> failed e \<longrightarrow> e \<notin> set evs"
      "CombinedOutput w cwebp
         [''-q'', quality v rq, Join [tempDir, Filename up], ''-o'',
          Join [tempDir, outputFilename (Filename up)]] = (combined, Some err)"
      "convertToWebP v w rq =
         (c_JSON 500 [(''details'', combined), (''error'', ''Failed to convert image'')],
          logf v ''Received file: %s, size: %d'' [S (Filename up), I (Size up)]
          @ [OsMkdirTemp [] ''webp-convert-*'' (Some tempDir),
             OsCreate (Join [tempDir, Filename up]) True,
             IoCopy (Join [tempDir, Filename up]) True,
             FileClose (Join [tempDir, Filename up])]
          @ evs
          @ logf v ''Converting %s to WebP with quality %s using %s''
              [S (Join [tempDir, Filename up]), S (quality v rq), S cwebp]
          @ [ExecCombinedOutput cwebp
               [''-q'', quality v rq, Join [tempDir, Filename up], ''-o'',
                Join [tempDir, outputFilename (Filename up)]] False]
          @ logf v ''Error converting image: %v, output: %s'' [S err, S combined]
          @ [OsRemoveAll tempDir, UploadClose])"
  | (Unreadable) up tempDir cwebp evs combined err where
      "FormFile rq ''image'' = Inr up"
      "MkdirTemp w [] ''webp-convert-*'' = Inr tempDir"
      "Create w (Join [tempDir, Filename up]) = None"
      "Copy w (Join [tempDir, Filename up]) (content up) = None"
      "cwebpPath v w = (Inr cwebp, evs)"
      "\<forall>e. \<not> lookup e \<or> failed e \<longrightarrow> e \<notin> set evs"
      "CombinedOutput w cwebp
         [''-q'', quality v rq, Join [tempDir, Filename up], ''-o'',
          Join [tempDir, outputFilename (Filename up)]] = (combined, None)"
      "ReadFile w (Join [tempDir, outputFilename (Filename up)]) = Inl err"
      "convertToWebP v w rq =
         (c_JSON 500 [(''error'', ''Failed to read converted file'')],
          logf v ''Received file: %s, size: %d'' [S (Filename up), I (Size up)]
          @ [OsMkdirTemp [] ''webp-convert-*'' (Some tempDir),
             OsCreate (Join [tempDir, Filename up]) True,
             IoCopy (Join [tempDir, Filename up]) True,
             FileClose (Join [tempDir, Filename up])]
          @ evs
          @ logf v ''Converting %s to WebP with quality %s using %s''
              [S (Join [tempDir, Filename up]), S (quality v rq), S cwebp]
          @ [ExecCombinedOutput cwebp
               [''-q'', quality v rq, Join [tempDir, Filename up], ''-o'',
                Join [tempDir, outputFilename (Filename up)]] True]
          @ logf v ''Conversion successful, reading output file'' []
          @ [OsReadFile (Join [tempDir, outputFilename (Filename up)]) False]
          @ logf v ''Error reading converted file: %v'' [S err]
          @ [OsRemoveAll tempDir, UploadClose])"
  | (Converted) up tempDir cwebp evs combined webpData where
      "FormFile rq ''image'' = Inr up"
      "MkdirTemp w [] ''webp-convert-*'' = Inr tempDir"
      "Create w (Join [tempDir, Filename up]) = None"
      "Copy w (Join [tempDir, Filename up]) (content up) = None"
      "cwebpPath v w = (Inr cwebp, evs)"
      "\<forall>e. \<not> lookup e \<or> failed e \<longrightarrow> e \<notin> set evs"
      "CombinedOutput w cwebp
         [''-q'', quality v rq, Join [tempDir, Filename up], ''-o'',
          Join [tempDir, outputFilename (Filename up)]] = (combined, None)"
      "ReadFile w (Join [tempDir, outputFilename (Filename up)]) = Inr webpData"
      "convertToWebP v w rq =
         (\<lparr>status = 200,
           headers = [(''Content-Disposition'',
                       ''attachment; filename='' @ outputFilename (Filename up)),
                      (''Content-Type'', ''image/webp'')],
           payload = Data webpData\<rparr>,
          logf v ''Received file: %s, size: %d'' [S (Filename up), I (Size up)]
          @ [OsMkdirTemp [] ''webp-convert-*'' (Some tempDir),
             OsCreate (Join [tempDir, Filename up]) True,
             IoCopy (Join [tempDir, Filename up]) True,
             FileClose (Join [tempDir, Filename up])]
          @ evs
          @ logf v ''Converting %s to WebP with quality %s using %s''
              [S (Join [tempDir, Filename up]), S (quality v rq), S cwebp]
          @ [ExecCombinedOutput cwebp
               [''-q'', quality v rq, Join [tempDir, Filename up], ''-o'',
                Join [tempDir, outputFilename (Filename up)]] True]
          @ logf v ''Conversion successful, reading output file'' []
          @ [OsReadFile (Join [tempDir, outputFilename (Filename up)]) True]
          @ logf v ''Sending WebP file: %s, size: %d bytes''
              [S (outputFilename (Filename up)), I (int (length webpData))]
          @ [OsRemoveAll tempDir, UploadClose])"
proof (cases "FormFile rq ''image''")
  case (Inl err)
  show ?thesis
    by (rule NoImage [OF Inl]) (simp add: convertToWebP_def Inl)
next
  case up: (Inr up)
  show ?thesis
  proof (cases "MkdirTemp w [] ''webp-convert-*''")
    case (Inl err)
    show ?thesis
      by (rule NoTempDir [OF up Inl]) (simp add: convertToWebP_def up Inl)
  next
    case dir: (Inr tempDir)
    let ?inp = "Join [tempDir, Filename up]"
    let ?outp = "Join [tempDir, outputFilename (Filename up)]"
    have conv: "convertToWebP v w rq =
      (fst (inTempDir v w rq up tempDir),
       logf v ''Received file: %s, size: %d'' [S (Filename up), I (Size up)]
       @ [OsMkdirTemp [] ''webp-convert-*'' (Some tempDir)]
       @ snd (inTempDir v w rq up tempDir) @ [OsRemoveAll tempDir, UploadClose])"
      using up dir by (simp add: convertToWebP_def split: prod.splits)
    show ?thesis
    proof (cases "Create w ?inp")
      case (Some err)
      then have inT: "inTempDir v w rq up tempDir =
        (c_JSON 500 [(''error'', ''Failed to save uploaded file'')],
         [OsCreate ?inp False] @ logf v ''Error creating input file: %v'' [S err])"
        by (simp add: inTempDir_def Let_def)
      show ?thesis
        by (rule NoCreate [OF up dir Some]) (simp add: conv inT)
    next
      case cr: None
      show ?thesis
      proof (cases "Copy w ?inp (content up)")
        case (Some err)
        with cr have inT: "inTempDir v w rq up tempDir =
          (c_JSON 500 [(''error'', ''Failed to copy uploaded file'')],
           [OsCreate ?inp True, IoCopy ?inp False, FileClose ?inp]
           @ logf v ''Error copying file: %v'' [S err])"
          by (simp add: inTempDir_def Let_def)
        show ?thesis
          by (rule NoCopy [OF up dir cr Some]) (simp add: conv inT)
      next
        case cp: None
        show ?thesis
        proof (cases "cwebpPath v w")
          case (Pair loc evs)
          show ?thesis
          proof (cases loc)
            case (Inl resp)
            with Pair have "cwebpPath v w = (Inl resp, evs)" by simp
            then obtain msg where loc: "cwebpPath v w = (Inl (c_JSON 500 [(''error'', msg)]), evs)"
              using cwebpPath_Inl by blast
            with cr cp have inT: "inTempDir v w rq up tempDir =
              (c_JSON 500 [(''error'', msg)],
               [OsCreate ?inp True, IoCopy ?inp True, FileClose ?inp] @ evs)"
              by (simp add: inTempDir_def Let_def)
            from loc have lk: "\<forall>e. \<not> lookup e \<longrightarrow> e \<notin> set evs"
              by (blast dest: cwebpPath_lookup)
            show ?thesis
              by (rule NoCwebp [OF up dir cr cp loc lk]) (simp add: conv inT)
          next
            case (Inr cwebp)
            with Pair have loc: "cwebpPath v w = (Inr cwebp, evs)" by simp
            then have lk: "\<forall>e. \<not> lookup e \<or> failed e \<longrightarrow> e \<notin> set evs"
              by (blast dest: cwebpPath_lookup cwebpPath_Inr_not_failed)
            let ?args = "[''-q'', quality v rq, ?inp, ''-o'', ?outp]"
            let ?run = "runCwebp v w cwebp (quality v rq) ?inp ?outp (outputFilename (Filename up))"
            from cr cp loc have inT: "inTempDir v w rq up tempDir =
              (fst ?run,
               [OsCreate ?inp True, IoCopy ?inp True, FileClose ?inp] @ evs
               @ logf v ''Converting %s to WebP with quality %s using %s''
                   [S ?inp, S (quality v rq), S cwebp]
               @ snd ?run)"
              by (simp add: inTempDir_def Let_def split: prod.splits)
            show ?thesis
            proof (cases "CombinedOutput w cwebp ?args")
              case (Pair combined res)
              show ?thesis
              proof (cases res)
                case (Some err)
                with Pair have ex: "CombinedOutput w cwebp ?args = (combined, Some err)"
                  by simp
                show ?thesis
                  by (rule Failed [OF up dir cr cp loc lk ex])
                    (simp add: conv inT runCwebp_failed [OF ex])
              next
                case None
                with Pair have ex: "CombinedOutput w cwebp ?args = (combined, None)"
                  by simp
                show ?thesis
                proof (cases "ReadFile w ?outp")
                  case (Inl err)
                  show ?thesis
                    by (rule Unreadable [OF up dir cr cp loc lk ex Inl])
                      (simp add: conv inT runCwebp_unreadable [OF ex Inl])
                next
                  case (Inr webpData)
                  show ?thesis
                    by (rule Converted [OF up dir cr cp loc lk ex Inr])
                      (simp add: conv inT runCwebp_ok [OF ex Inr])
                qed
              qed
            qed
          qed
        qed
      qed
    qed
  qed
qed



lemma health_route:
  "v \<noteq> Part_000 \<Longrightarrow> map_of (routes (router v)) (''GET'', ''/health'') = Some Health"
  "map_of (routes (router Part_000)) (''GET'', ''/health'') = None"
  by (cases v; simp add: POST_def GET_def gin_Default_def)
     (simp add: POST_def GET_def gin_Default_def)

lemma convert_route: "map_of (routes (router v)) (''POST'', ''/convert'') = Some Convert"
  by (cases v) (simp_all add: POST_def GET_def gin_Default_def)

text \<open>What the middleware leaves of the handler's response to \<^verbatim>\<open>POST /convert\<close>.\<close>

lemma serve_convert:
  assumes "reqMethod rq = ''POST''" "reqPath rq = ''/convert''"
    and "serve debugHandler v w rq = (r, tr)"
  obtains r0 where
    "convertToWebP v w rq = (r0, tr)"
    "status r = status r0"
    "payload r = payload r0"
    "header r ''Content-Type'' = header r0 ''Content-Type''"
    "header r ''Content-Disposition'' = header r0 ''Content-Disposition''"
proof (cases "convertToWebP v w rq")
  case (Pair r0 tr0)
  have "tr0 = tr \<and> status r = status r0 \<and> payload r = payload r0
      \<and> header r ''Content-Type'' = header r0 ''Content-Type''
      \<and> header r ''Content-Disposition'' = header r0 ''Content-Disposition''"
    using assms Pair
    by (cases v)
      (auto simp: serve_def convert_route middleware_def header_def corsHeaders_def
        POST_def GET_def gin_Default_def)
  with Pair that show ?thesis by blast
qed



subsection \<open>Sample runs\<close>

lemma sample_run:
  "convertToWebP Part_001 (sample_world no_env) sample_request =
     (\<lparr>status = 200,
       headers = [(''Content-Disposition'', ''attachment; filename=photo.webp''),
                  (''Content-Type'', ''image/webp'')],
       payload = Data ''RIFF''\<rparr>,
      [OsMkdirTemp [] ''webp-convert-*'' (Some ''/tmp/webp-convert-1234''),
       OsCreate ''/tmp/webp-convert-1234/photo.JPG'' True,
       IoCopy ''/tmp/webp-convert-1234/photo.JPG'' True,
       FileClose ''/tmp/webp-convert-1234/photo.JPG'',
       ExecCombinedOutput ''cwebp''
        [''-q'', ''50'', ''/tmp/webp-convert-1234/photo.JPG'', ''-o'',
         ''/tmp/webp-convert-1234/photo.webp''] True,
       OsReadFile ''/tmp/webp-convert-1234/photo.webp'' True,
       OsRemoveAll ''/tmp/webp-convert-1234'', UploadClose])"
  by code_simp

lemma sample_served:
  "serve (\<lambda>w. notFound) Part_001 (sample_world no_env) sample_request =
     (\<lparr>status = 200,
       headers = [(''Access-Control-Allow-Origin'', ''*''),
                  (''Access-Control-Allow-Methods'', ''GET, POST, OPTIONS''),
                  (''Access-Control-Allow-Headers'', ''Content-Type''),
                  (''Content-Disposition'', ''attachment; filename=photo.webp''),
                  (''Content-Type'', ''image/webp'')],
       payload = Data ''RIFF''\<rparr>,
      [OsMkdirTemp [] ''webp-convert-*'' (Some ''/tmp/webp-convert-1234''),
       OsCreate ''/tmp/webp-convert-1234/photo.JPG'' True,
       IoCopy ''/tmp/webp-convert-1234/photo.JPG'' True,
       FileClose ''/tmp/webp-convert-1234/photo.JPG'',
       ExecCombinedOutput ''cwebp''
        [''-q'', ''50'', ''/tmp/webp-convert-1234/photo.JPG'', ''-o'',
         ''/tmp/webp-convert-1234/photo.webp''] True,
       OsReadFile ''/tmp/webp-convert-1234/photo.webp'' True,
       OsRemoveAll ''/tmp/webp-convert-1234'', UploadClose])"
  by code_simp

lemma failing_served:
  "serve (\<lambda>w. notFound) Main_logging failing_world sample_request =
     (\<lparr>status = 500,
       headers = [(''Content-Type'', ''application/json; charset=utf-8'')],
       payload = JSON [(''details'', ''cannot open input''),
                       (''error'', ''Failed to convert image'')]\<rparr>,
      [Log ''Received file: %s, size: %d'' [S ''photo.JPG'', I 4],
       OsMkdirTemp [] ''webp-convert-*'' (Some ''/tmp/webp-convert-1234''),
       OsCreate ''/tmp/webp-convert-1234/photo.JPG'' True,
       IoCopy ''/tmp/webp-convert-1234/photo.JPG'' True,
       FileClose ''/tmp/webp-convert-1234/photo.JPG'',
       OsGetenv ''LIBWEBP_PATH'',
       Log ''Converting %s to WebP with quality %s using %s''
        [S ''/tmp/webp-convert-1234/photo.JPG'', S ''50'', S ''cwebp''],
       ExecCombinedOutput ''cwebp''
        [''-q'', ''50'', ''/tmp/webp-convert-1234/photo.JPG'', ''-o'',
         ''/tmp/webp-convert-1234/photo.webp''] False,
       Log ''Error converting image: %v, output: %s''
        [S ''exit status 255'', S ''cannot open input''],
       OsRemoveAll ''/tmp/webp-convert-1234'', UploadClose])"
  by code_simp

lemma empty_served:
  "serve (\<lambda>w. notFound) Main_logging (sample_world no_env) empty_request =
     (\<lparr>status = 400,
       headers = [(''Content-Type'', ''application/json; charset=utf-8'')],
       payload = JSON [(''error'', ''No image file provided'')]\<rparr>,
      [Log ''Error getting form file: %v'' [S ''http: no such file'']])"
  by code_simp

lemma sample_request_route:
  "reqMethod sample_request = ''POST''" "reqPath sample_request = ''/convert''"
  "reqMethod empty_request = ''POST''" "reqPath empty_request = ''/convert''"
  by (simp_all add: sample_request_def empty_request_def)

lemma part_000_run:
  "convertToWebP Part_000 (sample_world (libwebp_env ''libwebp'')) sample_request =
     (\<lparr>status = 200,
       headers = [(''Content-Disposition'', ''attachment; filename=photo.webp''),
                  (''Content-Type'', ''image/webp'')],
       payload = Data ''RIFF''\<rparr>,
      [OsMkdirTemp [] ''webp-convert-*'' (Some ''/tmp/webp-convert-1234''),
       OsCreate ''/tmp/webp-convert-1234/photo.JPG'' True,
       IoCopy ''/tmp/webp-convert-1234/photo.JPG'' True,
       FileClose ''/tmp/webp-convert-1234/photo.JPG'',
       OsGetenv ''LIBWEBP_PATH'', OsGetwd True,
       ExecCombinedOutput ''/app/libwebp/bin/cwebp''
        [''-q'', ''80'', ''/tmp/webp-convert-1234/photo.JPG'', ''-o'',
         ''/tmp/webp-convert-1234/photo.webp''] True,
       OsReadFile ''/tmp/webp-convert-1234/photo.webp'' True,
       OsRemoveAll ''/tmp/webp-convert-1234'', UploadClose])"
  by code_simp

lemma sample_joins:
  "Join [''/opt/libwebp'', ''bin'', ''cwebp''] = ''/opt/libwebp/bin/cwebp''"
  "Join [''/app'', ''libwebp'', ''bin'', ''cwebp''] = ''/app/libwebp/bin/cwebp''"
  by code_simp+

subsection \<open>Normal forms of paths\<close>

text \<open>
  Cutting a path at its separators: the pieces hold no separator, and joining them
  again gives the path back.
\<close>

lemma split_sep_not_Nil [simp]: "split_sep p \<noteq> []"
  by (induction p) (auto split: list.splits)

lemma split_sep_append:
  "split_sep (a @ CHR ''/'' # b) = split_sep a @ split_sep b"
proof (induction a)
  case Nil
  show ?case by simp
next
  case (Cons c a)
  show ?case
  proof (cases "c = CHR ''/''")
    case True
    with Cons show ?thesis by simp
  next
    case False
    obtain e es where "split_sep a = e # es"
      by (cases "split_sep a") simp_all
    with False Cons show ?thesis by simp
  qed
qed

lemma split_sep_plain: "CHR ''/'' \<notin> set f \<Longrightarrow> split_sep f = [f]"
  by (induction f) auto

lemma split_sep_no_sep: "e \<in> set (split_sep p) \<Longrightarrow> CHR ''/'' \<notin> set e"
proof (induction p arbitrary: e)
  case Nil
  then show ?case by simp
next
  case (Cons c p)
  obtain x xs where x: "split_sep p = x # xs"
    by (cases "split_sep p") simp_all
  with Cons show ?case
    by (cases "c = CHR ''/''") auto
qed

lemma split_join_sep:
  "es \<noteq> [] \<Longrightarrow> \<forall>e \<in> set es. CHR ''/'' \<notin> set e \<Longrightarrow> split_sep (join_sep es) = es"
proof (induction es rule: join_sep.induct)
  case 1
  then show ?case by simp
next
  case (2 x)
  then show ?case by (simp add: split_sep_plain)
next
  case (3 x y ys)
  then show ?case by (simp add: split_sep_append split_sep_plain)
qed

lemma dotdot_block:
  "x \<notin> set (dropWhile (\<lambda>e. e = x) (a @ x # b)) \<Longrightarrow> set a \<subseteq> {x}"
proof (induction a)
  case Nil
  show ?case by simp
next
  case (Cons y a)
  show ?case
  proof (cases "y = x")
    case True
    with Cons show ?thesis by simp
  next
    case False
    with Cons.prems show ?thesis by simp
  qed
qed

lemma dotdot_block_snoc:
  "x \<notin> set (dropWhile (\<lambda>e. e = x) a) \<Longrightarrow> y \<noteq> x \<Longrightarrow>
   x \<notin> set (dropWhile (\<lambda>e. e = x) (a @ [y]))"
proof (induction a)
  case Nil
  then show ?case by simp
next
  case (Cons z a)
  show ?case
  proof (cases "z = x")
    case True
    with Cons show ?thesis by simp
  next
    case False
    with Cons.prems show ?thesis by simp
  qed
qed

lemma dotdot_block_all:
  "set a \<subseteq> {x} \<Longrightarrow> dropWhile (\<lambda>e. e = x) (a @ [x]) = []"
  by (induction a) simp_all

lemma dotdot_block_butlast:
  "x \<notin> set (dropWhile (\<lambda>e. e = x) a) \<Longrightarrow> x \<notin> set (dropWhile (\<lambda>e. e = x) (butlast a))"
proof (induction a)
  case Nil
  then show ?case by simp
next
  case (Cons z a)
  show ?case
  proof (cases "z = x")
    case True
    with Cons show ?thesis by (cases a) simp_all
  next
    case False
    from Cons.prems False have "x \<notin> set a" by simp
    then have "x \<notin> set (butlast a)" by (blast dest: in_set_butlastD)
    with False show ?thesis by (cases a) simp_all
  qed
qed

lemma dotdot_block_last:
  assumes "x \<notin> set (dropWhile (\<lambda>e. e = x) a)" "a \<noteq> []" "last a = x"
  shows "set a \<subseteq> {x}"
proof -
  from assms(2,3) have a: "a = butlast a @ [x]"
    using append_butlast_last_id [of a] by simp
  with assms(1) have "x \<notin> set (dropWhile (\<lambda>e. e = x) (butlast a @ x # []))" by simp
  then have "set (butlast a) \<subseteq> {x}" by (rule dotdot_block)
  then have "set (butlast a @ [x]) \<subseteq> {x}" by simp
  with a show ?thesis by simp
qed

lemma cleaned_Nil [simp]: "cleaned rooted []"
  by (simp add: cleaned_def)

lemma cleaned_step:
  assumes "cleaned rooted out" "CHR ''/'' \<notin> set e"
  shows "cleaned rooted (clean_step rooted out e)"
proof -
  from assms(1) have els: "\<forall>x \<in> set out. x \<noteq> [] \<and> x \<noteq> ''.'' \<and> CHR ''/'' \<notin> set x"
    and blk: "''..'' \<notin> set (dropWhile (\<lambda>e. e = ''..'') out)"
    and root: "rooted \<longrightarrow> ''..'' \<notin> set out"
    by (simp_all add: cleaned_def)
  consider (skip) "e = [] \<or> e = ''.''"
    | (pop) "e = ''..''" "out \<noteq> []" "last out \<noteq> ''..''"
    | (root) "e = ''..''" "out = [] \<or> last out = ''..''" "rooted"
    | (keep) "e = ''..''" "out = [] \<or> last out = ''..''" "\<not> rooted"
    | (push) "e \<noteq> []" "e \<noteq> ''.''" "e \<noteq> ''..''"
    by blast
  then show ?thesis
  proof cases
    case skip
    with assms(1) show ?thesis by auto
  next
    case pop
    then have step: "clean_step rooted out e = butlast out" by simp
    have "\<forall>x \<in> set (butlast out). x \<noteq> [] \<and> x \<noteq> ''.'' \<and> CHR ''/'' \<notin> set x"
      using els by (blast dest: in_set_butlastD)
    moreover have "''..'' \<notin> set (dropWhile (\<lambda>e. e = ''..'') (butlast out))"
      using blk by (rule dotdot_block_butlast)
    moreover have "rooted \<longrightarrow> ''..'' \<notin> set (butlast out)"
      using root by (blast dest: in_set_butlastD)
    ultimately show ?thesis unfolding step by (simp add: cleaned_def)
  next
    case root
    with assms(1) show ?thesis by auto
  next
    case keep
    then have step: "clean_step rooted out e = out @ [''..'']" by auto
    have "set out \<subseteq> {''..''}"
    proof (cases "out = []")
      case True
      then show ?thesis by simp
    next
      case False
      with keep(2) blk show ?thesis by (intro dotdot_block_last) simp_all
    qed
    then have "dropWhile (\<lambda>e. e = ''..'') (out @ [''..'']) = []"
      by (rule dotdot_block_all)
    with els keep(3) show ?thesis unfolding step by (simp add: cleaned_def)
  next
    case push
    then have step: "clean_step rooted out e = out @ [e]" by simp
    have "''..'' \<notin> set (dropWhile (\<lambda>e. e = ''..'') (out @ [e]))"
      using blk push(3) by (rule dotdot_block_snoc)
    with els root push assms(2) show ?thesis unfolding step by (simp add: cleaned_def)
  qed
qed

lemma cleaned_foldl:
  "cleaned rooted out \<Longrightarrow> \<forall>e \<in> set es. CHR ''/'' \<notin> set e \<Longrightarrow>
   cleaned rooted (foldl (clean_step rooted) out es)"
proof (induction es arbitrary: out)
  case Nil
  then show ?case by simp
next
  case (Cons e es)
  from Cons.prems have "cleaned rooted (clean_step rooted out e)"
    by (intro cleaned_step) simp_all
  from Cons.IH [OF this] Cons.prems(2) show ?case by simp
qed

lemma cleaned_elements: "cleaned (HasPrefix p ''/'') (elements p)"
  unfolding elements_def
  by (rule cleaned_foldl) (simp_all add: split_sep_no_sep)

text \<open>Cleaning elements that are already clean changes nothing.\<close>

lemma foldl_cleaned:
  "cleaned rooted (out @ es) \<Longrightarrow> foldl (clean_step rooted) out es = out @ es"
proof (induction es arbitrary: out)
  case Nil
  then show ?case by simp
next
  case (Cons e es)
  from Cons.prems have e: "e \<noteq> []" "e \<noteq> ''.''"
    by (simp_all add: cleaned_def)
  have step: "clean_step rooted out e = out @ [e]"
  proof (cases "e = ''..''")
    case True
    from Cons.prems True have nr: "\<not> rooted"
      by (auto simp: cleaned_def)
    from Cons.prems True have "''..'' \<notin> set (dropWhile (\<lambda>e. e = ''..'') (out @ ''..'' # es))"
      by (simp add: cleaned_def)
    then have "set out \<subseteq> {''..''}" by (rule dotdot_block)
    then have "out = [] \<or> last out = ''..''"
      by (cases out rule: rev_cases) simp_all
    with True nr show ?thesis by auto
  next
    case False
    with e show ?thesis by simp
  qed
  from Cons.prems have "cleaned rooted ((out @ [e]) @ es)" by simp
  from Cons.IH [OF this] step show ?case by simp
qed


lemma HasPrefix_slash: "HasPrefix s ''/'' \<longleftrightarrow> s \<noteq> [] \<and> hd s = CHR ''/''"
  by (cases s) (simp_all add: HasPrefix_def)

lemma join_sep_Nil: "join_sep es = [] \<Longrightarrow> \<forall>e \<in> set es. e \<noteq> [] \<Longrightarrow> es = []"
  by (cases es rule: join_sep.cases) simp_all

lemma join_sep_hd: "es \<noteq> [] \<Longrightarrow> hd es \<noteq> [] \<Longrightarrow> join_sep es \<noteq> [] \<and> hd (join_sep es) = hd (hd es)"
  by (cases es rule: join_sep.cases) simp_all

text \<open>Cleaning a path keeps its elements and whether it is rooted.\<close>

lemma elements_Clean:
  "elements (Clean p) = elements p \<and> HasPrefix (Clean p) ''/'' = HasPrefix p ''/''"
proof -
  let ?es = "elements p"
  have cl: "cleaned (HasPrefix p ''/'') ?es" by (rule cleaned_elements)
  then have ne: "\<forall>e \<in> set ?es. e \<noteq> []" and ns: "\<forall>e \<in> set ?es. CHR ''/'' \<notin> set e"
    by (simp_all add: cleaned_def)
  show ?thesis
  proof (cases "HasPrefix p ''/''")
    case True
    then have c: "Clean p = CHR ''/'' # join_sep ?es"
      by (simp add: Clean_def)
    have r: "HasPrefix (Clean p) ''/''"
      by (simp add: c HasPrefix_def)
    have "foldl (clean_step True) [] (split_sep (CHR ''/'' # join_sep ?es)) = ?es"
    proof (cases "?es = []")
      case True
      then show ?thesis by simp
    next
      case False
      then have "split_sep (join_sep ?es) = ?es"
        using ns by (rule split_join_sep)
      moreover have "foldl (clean_step True) [] ?es = [] @ ?es"
        using cl True by (intro foldl_cleaned) simp
      ultimately show ?thesis by simp
    qed
    with r True show ?thesis
      by (simp add: elements_def [of "Clean p"] c [symmetric])
  next
    case nr: False
    show ?thesis
    proof (cases "?es = []")
      case True
      with nr have c: "Clean p = ''.''"
        by (simp add: Clean_def)
      show ?thesis
        by (simp add: c True nr) (simp add: elements_def HasPrefix_def)
    next
      case False
      with ne have j: "join_sep ?es \<noteq> []"
        using join_sep_Nil by blast
      with nr have c: "Clean p = join_sep ?es"
        by (simp add: Clean_def)
      from False ne ns have "hd ?es \<noteq> []" "CHR ''/'' \<notin> set (hd ?es)"
        by simp_all
      then have "hd (hd ?es) \<noteq> CHR ''/''"
        by (cases "hd ?es") auto
      with join_sep_hd [OF False \<open>hd ?es \<noteq> []\<close>] have r: "\<not> HasPrefix (Clean p) ''/''"
        by (simp add: c HasPrefix_slash)
      have "split_sep (join_sep ?es) = ?es"
        using False ns by (rule split_join_sep)
      moreover have "foldl (clean_step False) [] ?es = [] @ ?es"
        using cl nr by (intro foldl_cleaned) simp
      ultimately have "elements (Clean p) = ?es"
        using r by (simp add: elements_def [of "Clean p"] c [symmetric])
      with r nr show ?thesis by simp
    qed
  qed
qed

lemma elements_below:
  assumes "plain f" "d \<noteq> []"
  shows "elements (d @ CHR ''/'' # f) = elements d @ [f]
    \<and> HasPrefix (d @ CHR ''/'' # f) ''/'' = HasPrefix d ''/''"
proof -
  from assms(1) have f: "f \<noteq> []" "f \<noteq> ''.''" "f \<noteq> ''..''" "CHR ''/'' \<notin> set f"
    by (simp_all add: plain_def)
  from assms(2) have r: "HasPrefix (d @ CHR ''/'' # f) ''/'' = HasPrefix d ''/''"
    by (simp add: HasPrefix_slash)
  have "split_sep (d @ CHR ''/'' # f) = split_sep d @ [f]"
    using f(4) by (simp add: split_sep_append split_sep_plain)
  then have "elements (d @ CHR ''/'' # f)
      = clean_step (HasPrefix d ''/'') (elements d) f"
    by (simp add: elements_def r)
  with f r show ?thesis by simp
qed

lemma inside_refl: "inside d d"
  by (simp add: inside_def)

lemma inside_Join:
  assumes "plain f"
  shows "inside d (Join [d, f])"
proof (cases "d = []")
  case True
  from assms have f: "f \<noteq> []" "f \<noteq> ''.''" "f \<noteq> ''..''" "CHR ''/'' \<notin> set f"
    by (simp_all add: plain_def)
  then have "hd f \<noteq> CHR ''/''" by (cases f) auto
  with f have nr: "\<not> HasPrefix f ''/''" by (simp add: HasPrefix_slash)
  from f have j: "Join [[], f] = Clean f"
    by (simp add: Join.simps)
  have "\<not> HasPrefix ([] :: string) ''/''" by (simp add: HasPrefix_def)
  moreover have "elements [] = []"
    by (simp add: elements_def)
  ultimately show ?thesis
    using nr unfolding True by (simp add: inside_def j elements_Clean)
next
  case False
  then have j: "Join [d, f] = Clean (d @ CHR ''/'' # f)"
    by (simp add: Join.simps)
  from elements_below [OF assms False] show ?thesis
    by (simp add: inside_def j elements_Clean)
qed

lemma plain_outputFilename: "plain f \<Longrightarrow> plain (outputFilename f)"
proof -
  assume "plain f"
  then have "CHR ''/'' \<notin> set f" by (simp add: plain_def)
  then have "CHR ''/'' \<notin> set (filenameWithoutExt f)"
    unfolding filenameWithoutExt_def by (blast dest: in_set_takeD)
  moreover have "filenameWithoutExt f @ ''.webp'' \<noteq> ''.''"
    "filenameWithoutExt f @ ''.webp'' \<noteq> ''..''"
    by (cases "filenameWithoutExt f"; cases "tl (filenameWithoutExt f)"; simp)+
  ultimately show ?thesis
    by (simp add: plain_def outputFilename_def)
qed

subsection \<open>What a run leaves on disk\<close>

lemma lookup_adds_nothing: "lookup e \<Longrightarrow> added w e = []"
  by (cases e) simp_all

lemma fs_step_subset: "set (fs_step w fs e) \<subseteq> set fs \<union> set (added w e)"
  by (cases "(w, fs, e)" rule: fs_step.cases) auto

lemma fs_run_subset:
  "\<forall>e \<in> set evs. set (added w e) \<subseteq> A \<Longrightarrow> set (fs_run w fs evs) \<subseteq> set fs \<union> A"
proof (induction evs arbitrary: fs)
  case Nil
  then show ?case by (simp add: fs_run_def)
next
  case (Cons e evs)
  from Cons.prems have "set (fs_run w (fs_step w fs e) evs) \<subseteq> set (fs_step w fs e) \<union> A"
    by (intro Cons.IH) simp
  moreover have "set (fs_step w fs e) \<subseteq> set fs \<union> A"
    using fs_step_subset [of w fs e] Cons.prems by auto
  ultimately show ?case by (auto simp: fs_run_def)
qed

lemma fs_run_removed:
  "p \<in> set (fs_run w fs (calls @ [OsRemoveAll d, UploadClose])) \<Longrightarrow> \<not> inside d p"
  by (simp add: fs_run_def)

subsection \<open>What the handler leaves on disk\<close>

lemma ends_with:
  assumes "take 2 (rev tr) = [b, a]"
  shows "\<exists>calls. tr = calls @ [a, b]"
proof -
  from assms obtain rest where "rev tr = b # a # rest"
    by (cases "rev tr"; cases "tl (rev tr)") auto
  then have "tr = rev rest @ [a, b]"
    by (simp add: rev_swap [symmetric])
  then show ?thesis by blast
qed

lemma lookups_add_nothing:
  assumes "\<forall>e. \<not> lookup e \<longrightarrow> e \<notin> set evs"
  shows "concat (map (added w) evs) = []"
proof -
  from assms have "\<forall>e \<in> set evs. added w e = []"
    using lookup_adds_nothing by blast
  then show ?thesis by (induction evs) simp_all
qed

lemma logf_adds_nothing [simp]: "concat (map (added w) (logf v fmt args)) = []"
  by (simp add: logf_def)

lemma added_subset:
  "set (concat (map (added w) evs)) \<subseteq> A \<Longrightarrow> \<forall>e \<in> set evs. set (added w e) \<subseteq> A"
  by auto

lemma last_calls:
  assumes "FormFile rq ''image'' = Inr up"
    and "MkdirTemp w [] ''webp-convert-*'' = Inr tempDir"
    and "tr = snd (convertToWebP v w rq)"
  shows "take 2 (rev tr) = [UploadClose, OsRemoveAll tempDir]"
  using assms
  by (cases rule: convertToWebP_cases [where v=v and w=w and rq=rq]) simp_all

lemma exec_call:
  assumes "FormFile rq ''image'' = Inr up"
    and "MkdirTemp w [] ''webp-convert-*'' = Inr tempDir"
    and "tr = snd (convertToWebP v w rq)"
    and "ExecCombinedOutput cmd args ok \<in> set tr"
  shows "concat (map (added w) tr)
    = [tempDir, Join [tempDir, Filename up]] @ Written w cmd args"
  using assms
  by (cases rule: convertToWebP_cases [where v=v and w=w and rq=rq])
    (auto simp: lookups_add_nothing)

lemma no_exec_call:
  assumes "FormFile rq ''image'' = Inr up"
    and "MkdirTemp w [] ''webp-convert-*'' = Inr tempDir"
    and "tr = snd (convertToWebP v w rq)"
    and "\<forall>cmd args ok. ExecCombinedOutput cmd args ok \<notin> set tr"
  shows "set (concat (map (added w) tr)) \<subseteq> {tempDir, Join [tempDir, Filename up]}"
  using assms
  by (cases rule: convertToWebP_cases [where v=v and w=w and rq=rq])
    (auto simp: lookups_add_nothing)

lemma create_failed:
  assumes "FormFile rq ''image'' = Inr up"
    and "MkdirTemp w [] ''webp-convert-*'' = Inr tempDir"
    and "tr = snd (convertToWebP v w rq)"
    and "Create w (Join [tempDir, Filename up]) \<noteq> None"
  shows "concat (map (added w) tr) = [tempDir]"
  using assms
  by (cases rule: convertToWebP_cases [where v=v and w=w and rq=rq]) simp_all

lemma sample_inside:
  "inside ''/tmp/webp-convert-1234'' ''/tmp/webp-convert-1234/photo.webp''"
  by code_simp

subsection \<open>The response, from what the calls return\<close>

text \<open>
  Each lemma takes what the operating system returns to the handler's calls and gives
  the response of \<open>convertToWebP\<close>.
\<close>

lemma convert_failed:
  assumes "FormFile rq ''image'' = Inr up"
    and "MkdirTemp w [] ''webp-convert-*'' = Inr tempDir"
    and "Create w (Join [tempDir, Filename up]) = None"
    and "Copy w (Join [tempDir, Filename up]) (content up) = None"
    and "cwebpPath v w = (Inr cwebp, evs)"
    and "CombinedOutput w cwebp
           [''-q'', quality v rq, Join [tempDir, Filename up], ''-o'',
            Join [tempDir, outputFilename (Filename up)]] = (out, Some err)"
  shows "fst (convertToWebP v w rq)
      = c_JSON 500 [(''details'', out), (''error'', ''Failed to convert image'')]"
    and "ExecCombinedOutput cwebp
           [''-q'', quality v rq, Join [tempDir, Filename up], ''-o'',
            Join [tempDir, outputFilename (Filename up)]] False
         \<in> set (snd (convertToWebP v w rq))"
  using assms
  by (cases rule: convertToWebP_cases [where v=v and w=w and rq=rq]; simp)+

lemma convert_no_image:
  assumes "FormFile rq ''image'' = Inl e"
  shows "fst (convertToWebP v w rq) = c_JSON 400 [(''error'', ''No image file provided'')]"
  using assms by (simp add: convertToWebP_def)

lemma convert_no_temp_dir:
  assumes "FormFile rq ''image'' = Inr up"
    and "MkdirTemp w [] ''webp-convert-*'' = Inl e"
  shows "fst (convertToWebP v w rq)
      = c_JSON 500 [(''error'', ''Failed to create temp directory'')]"
  using assms
  by (cases rule: convertToWebP_cases [where v=v and w=w and rq=rq]) simp_all

lemma convert_no_create:
  assumes "FormFile rq ''image'' = Inr up"
    and "MkdirTemp w [] ''webp-convert-*'' = Inr tempDir"
    and "Create w (Join [tempDir, Filename up]) = Some e"
  shows "fst (convertToWebP v w rq)
      = c_JSON 500 [(''error'', ''Failed to save uploaded file'')]"
  using assms
  by (cases rule: convertToWebP_cases [where v=v and w=w and rq=rq]) simp_all

lemma convert_no_copy:
  assumes "FormFile rq ''image'' = Inr up"
    and "MkdirTemp w [] ''webp-convert-*'' = Inr tempDir"
    and "Create w (Join [tempDir, Filename up]) = None"
    and "Copy w (Join [tempDir, Filename up]) (content up) = Some e"
  shows "fst (convertToWebP v w rq)
      = c_JSON 500 [(''error'', ''Failed to copy uploaded file'')]"
  using assms
  by (cases rule: convertToWebP_cases [where v=v and w=w and rq=rq]) simp_all

lemma convert_unreadable:
  assumes "FormFile rq ''image'' = Inr up"
    and "MkdirTemp w [] ''webp-convert-*'' = Inr tempDir"
    and "Create w (Join [tempDir, Filename up]) = None"
    and "Copy w (Join [tempDir, Filename up]) (content up) = None"
    and "cwebpPath v w = (Inr cwebp, evs)"
    and "CombinedOutput w cwebp
           [''-q'', quality v rq, Join [tempDir, Filename up], ''-o'',
            Join [tempDir, outputFilename (Filename up)]] = (out, None)"
    and "ReadFile w (Join [tempDir, outputFilename (Filename up)]) = Inl e"
  shows "fst (convertToWebP v w rq)
      = c_JSON 500 [(''error'', ''Failed to read converted file'')]"
  using assms
  by (cases rule: convertToWebP_cases [where v=v and w=w and rq=rq]) simp_all


lemma convert_failed_call:
  assumes "e \<in> set (snd (convertToWebP v w rq))" "failed e"
  shows "status (fst (convertToWebP v w rq)) = 500
    \<and> (\<exists>obj. payload (fst (convertToWebP v w rq)) = JSON obj)"
  using assms
  by (cases rule: convertToWebP_cases [where v=v and w=w and rq=rq])
    (auto simp: c_JSON_def)

subsection \<open>The output file name\<close>

text \<open>
  Claim C1. The output file name is the uploaded file name with its final extension, if
  any, replaced by \<^verbatim>\<open>.webp\<close>: \<^verbatim>\<open>photo.JPG\<close> gives \<^verbatim>\<open>photo.webp\<close>, \<^verbatim>\<open>archive.tar.gz\<close> gives
  \<^verbatim>\<open>archive.tar.webp\<close>, \<^verbatim>\<open>noext\<close> gives \<^verbatim>\<open>noext.webp\<close>. In general, a name \<open>stem.e\<close>
  whose part \<open>e\<close> after the last dot holds no separator gives \<open>stem.webp\<close>, and a name
  whose last path element holds no dot gets \<^verbatim>\<open>.webp\<close> appended; every name is of one
  of the two forms. This name is the one in the \<^verbatim>\<open>Content-Disposition\<close> header of every
  response with status 200, and the one of the path after \<^verbatim>\<open>-o\<close> in every call of the
  encoder, in the four programs.
\<close>

theorem output_name_replaces_extension:
  "outputFilename ''photo.JPG'' = ''photo.webp''
   \<and> outputFilename ''archive.tar.gz'' = ''archive.tar.webp''
   \<and> outputFilename ''noext'' = ''noext.webp''
   \<and> (CHR ''.'' \<notin> set e \<and> CHR ''/'' \<notin> set e \<longrightarrow>
        outputFilename (stem @ ''.'' @ e) = stem @ ''.webp'')
   \<and> (CHR ''.'' \<notin> set b \<and> CHR ''/'' \<notin> set b \<and> (d = [] \<or> last d = CHR ''/'') \<longrightarrow>
        outputFilename (d @ b) = d @ b @ ''.webp'')
   \<and> (FormFile rq ''image'' = Inr up \<longrightarrow>
        (status (fst (convertToWebP v w rq)) = 200 \<longrightarrow>
           header (fst (convertToWebP v w rq)) ''Content-Disposition''
             = Some (''attachment; filename='' @ outputFilename (Filename up)))
        \<and> (ExecCombinedOutput cmd args ok \<in> set (snd (convertToWebP v w rq)) \<longrightarrow>
             (\<exists>tempDir. MkdirTemp w [] ''webp-convert-*'' = Inr tempDir
                \<and> drop 3 args = [''-o'', Join [tempDir, outputFilename (Filename up)]])))"
proof (intro conjI impI)
  show "outputFilename ''photo.JPG'' = ''photo.webp''"
    by (simp add: outputFilename_def filenameWithoutExt_def Ext_def)
  show "outputFilename ''archive.tar.gz'' = ''archive.tar.webp''"
    by (simp add: outputFilename_def filenameWithoutExt_def Ext_def)
  show "outputFilename ''noext'' = ''noext.webp''"
    by (simp add: outputFilename_def filenameWithoutExt_def Ext_def)
next
  assume "CHR ''.'' \<notin> set e \<and> CHR ''/'' \<notin> set e"
  then show "outputFilename (stem @ ''.'' @ e) = stem @ ''.webp''"
    using outputFilename_dot [of e stem] by simp
next
  assume "CHR ''.'' \<notin> set b \<and> CHR ''/'' \<notin> set b \<and> (d = [] \<or> last d = CHR ''/'')"
  then show "outputFilename (d @ b) = d @ b @ ''.webp''"
    using outputFilename_no_dot [of b d] by simp
next
  assume up: "FormFile rq ''image'' = Inr up"
    and ok: "status (fst (convertToWebP v w rq)) = 200"
  show "header (fst (convertToWebP v w rq)) ''Content-Disposition''
          = Some (''attachment; filename='' @ outputFilename (Filename up))"
    using up ok
    by (cases rule: convertToWebP_cases [where v=v and w=w and rq=rq]) (simp_all add: c_JSON_def header_def)
next
  assume up: "FormFile rq ''image'' = Inr up"
    and ex: "ExecCombinedOutput cmd args ok \<in> set (snd (convertToWebP v w rq))"
  show "\<exists>tempDir. MkdirTemp w [] ''webp-convert-*'' = Inr tempDir
          \<and> drop 3 args = [''-o'', Join [tempDir, outputFilename (Filename up)]]"
    using up ex
    by (cases rule: convertToWebP_cases [where v=v and w=w and rq=rq])
      auto
qed

theorem output_name_replaces_extension_witness:
  "outputFilename (''archive.tar'' @ ''.'' @ ''gz'') = ''archive.tar'' @ ''.webp''
   \<and> outputFilename ([] @ ''noext'') = [] @ ''noext'' @ ''.webp''
   \<and> header (fst (convertToWebP Part_001 (sample_world no_env) sample_request))
        ''Content-Disposition'' = Some (''attachment; filename='' @ outputFilename ''photo.JPG'')
   \<and> drop 3 [''-q'', ''50'', ''/tmp/webp-convert-1234/photo.JPG'', ''-o'',
              ''/tmp/webp-convert-1234/photo.webp'']
        = [''-o'', Join [''/tmp/webp-convert-1234'', outputFilename ''photo.JPG'']]"
proof -
  let ?args = "[''-q'', ''50'', ''/tmp/webp-convert-1234/photo.JPG'', ''-o'',
                ''/tmp/webp-convert-1234/photo.webp'']"
  note inst = output_name_replaces_extension
    [of "''gz''" "''archive.tar''" "''noext''" "[]" sample_request sample_upload
        Part_001 "sample_world no_env" "''cwebp''" ?args True]
  have h1: "CHR ''.'' \<notin> set ''gz'' \<and> CHR ''/'' \<notin> set ''gz''" by simp
  have h2: "CHR ''.'' \<notin> set ''noext'' \<and> CHR ''/'' \<notin> set ''noext''
              \<and> ([] = ([] :: string) \<or> last [] = CHR ''/'')" by simp
  have h3: "FormFile sample_request ''image'' = Inr sample_upload"
    by (simp add: sample_request_def)
  have h4: "status (fst (convertToWebP Part_001 (sample_world no_env) sample_request)) = 200"
    by (simp add: sample_run)
  have h5: "ExecCombinedOutput ''cwebp'' ?args True
              \<in> set (snd (convertToWebP Part_001 (sample_world no_env) sample_request))"
    by (simp add: sample_run)
  have h6: "Filename sample_upload = ''photo.JPG''"
    by (simp add: sample_upload_def)
  have h7: "MkdirTemp (sample_world no_env) [] ''webp-convert-*'' = Inr ''/tmp/webp-convert-1234''"
    by (simp add: sample_world_def)
  from inst h1 have c1: "outputFilename (''archive.tar'' @ ''.'' @ ''gz'') = ''archive.tar'' @ ''.webp''"
    by blast
  from inst h2 have c2: "outputFilename ([] @ ''noext'') = [] @ ''noext'' @ ''.webp''"
    by blast
  from inst h3 h4 have c3:
    "header (fst (convertToWebP Part_001 (sample_world no_env) sample_request))
       ''Content-Disposition'' = Some (''attachment; filename='' @ outputFilename (Filename sample_upload))"
    by blast
  from inst h3 h5 obtain tempDir where
    t: "MkdirTemp (sample_world no_env) [] ''webp-convert-*'' = Inr tempDir"
    and c4: "drop 3 ?args = [''-o'', Join [tempDir, outputFilename (Filename sample_upload)]]"
    by blast
  from t h7 have "tempDir = ''/tmp/webp-convert-1234''" by simp
  with c1 c2 c3 c4 h6 show ?thesis by simp
qed

subsection \<open>The quality argument\<close>

text \<open>
  Claim C2, as the code has it. Whenever \<open>convertToWebP\<close> runs the encoder, the
  arguments start with \<^verbatim>\<open>-q\<close> and its value. In the two programs of \<^verbatim>\<open>main.go\<close> and in
  \<^verbatim>\<open>part_001\<close> the value is the \<^verbatim>\<open>quality\<close> parameter of the query, unchanged, whatever
  string it is (so also an integer in [0,100]), and \<^verbatim>\<open>80\<close> when the query has no such
  parameter. In \<^verbatim>\<open>part_000\<close> the value is always \<^verbatim>\<open>80\<close>: the query is not read.
\<close>

theorem quality_argument:
  assumes "ExecCombinedOutput cmd args ok \<in> set (snd (convertToWebP v w rq))"
  shows
    "(v \<noteq> Part_000 \<longrightarrow>
        (\<forall>q. map_of (query rq) ''quality'' = Some q \<longrightarrow> take 2 args = [''-q'', q])
        \<and> (map_of (query rq) ''quality'' = None \<longrightarrow> take 2 args = [''-q'', ''80'']))
     \<and> (v = Part_000 \<longrightarrow> take 2 args = [''-q'', ''80''])"
  using assms
  by (cases rule: convertToWebP_cases [where v=v and w=w and rq=rq])
    (auto simp: quality_def DefaultQuery_def)

theorem quality_argument_witness:
  "take 2 [''-q'', ''50'', ''/tmp/webp-convert-1234/photo.JPG'', ''-o'',
           ''/tmp/webp-convert-1234/photo.webp''] = [''-q'', ''50'']
   \<and> map_of (query sample_request) ''quality'' = Some ''50''
   \<and> ExecCombinedOutput ''cwebp''
        [''-q'', ''50'', ''/tmp/webp-convert-1234/photo.JPG'', ''-o'',
         ''/tmp/webp-convert-1234/photo.webp''] True
      \<in> set (snd (convertToWebP Part_001 (sample_world no_env) sample_request))"
proof -
  let ?args = "[''-q'', ''50'', ''/tmp/webp-convert-1234/photo.JPG'', ''-o'',
                ''/tmp/webp-convert-1234/photo.webp'']"
  have ex: "ExecCombinedOutput ''cwebp'' ?args True
      \<in> set (snd (convertToWebP Part_001 (sample_world no_env) sample_request))"
    by (simp add: sample_run)
  have q: "map_of (query sample_request) ''quality'' = Some ''50''"
    by (simp add: sample_request_def)
  from quality_argument [OF ex] q have "take 2 ?args = [''-q'', ''50'']"
    by blast
  with ex q show ?thesis by blast
qed

text \<open>
  The claim as stated, for every program, fails in \<^verbatim>\<open>part_000\<close>: the request
  \<^verbatim>\<open>POST /convert?quality=50\<close> runs the encoder with \<^verbatim>\<open>-q 80\<close>.
\<close>

theorem part_000_ignores_quality:
  "map_of (query sample_request) ''quality'' = Some ''50''
   \<and> ExecCombinedOutput ''/app/libwebp/bin/cwebp''
        [''-q'', ''80'', ''/tmp/webp-convert-1234/photo.JPG'', ''-o'',
         ''/tmp/webp-convert-1234/photo.webp''] True
      \<in> set (snd (convertToWebP Part_000 (sample_world (libwebp_env ''libwebp'')) sample_request))"
  by (simp add: part_000_run) (simp add: sample_request_def)

subsection \<open>The location of the encoder\<close>

text \<open>
  Claim C3, as the code has it. In the two programs of \<^verbatim>\<open>main.go\<close>: when \<^verbatim>\<open>LIBWEBP_PATH\<close>
  starts with \<^verbatim>\<open>/\<close> the encoder is \<^verbatim>\<open>Join(LIBWEBP_PATH, "bin", "cwebp")\<close>, the working
  directory is not asked for and has no influence; when it is not empty and does not
  start with \<^verbatim>\<open>/\<close>, and the working directory is known, the encoder is
  \<^verbatim>\<open>Join(workDir, LIBWEBP_PATH, "bin", "cwebp")\<close>; when it is empty the encoder is the
  fixed fallback, \<^verbatim>\<open>cwebp\<close> in the first program and \<^verbatim>\<open>/app/libwebp/bin/cwebp\<close> in the
  second. In \<^verbatim>\<open>part_000\<close> every non-empty \<^verbatim>\<open>LIBWEBP_PATH\<close> is joined to the working
  directory and an empty one ends the request with status 500. In \<^verbatim>\<open>part_001\<close> the encoder
  is always \<^verbatim>\<open>cwebp\<close>. In the four programs the command that is run is the one so found.
\<close>

theorem encoder_location_policy:
  "(v = Main_logging \<or> v = Main_railway \<longrightarrow>
      (HasPrefix (Getenv w ''LIBWEBP_PATH'') ''/'' \<longrightarrow>
         cwebpPath v w = (Inr (Join [Getenv w ''LIBWEBP_PATH'', ''bin'', ''cwebp'']),
                          [OsGetenv ''LIBWEBP_PATH''])
         \<and> cwebpPath v (w\<lparr>Getwd := cwd\<rparr>) = cwebpPath v w)
      \<and> (Getenv w ''LIBWEBP_PATH'' \<noteq> [] \<and> \<not> HasPrefix (Getenv w ''LIBWEBP_PATH'') ''/''
            \<and> Getwd w = Inr workDir \<longrightarrow>
          fst (cwebpPath v w)
            = Inr (Join [workDir, Getenv w ''LIBWEBP_PATH'', ''bin'', ''cwebp'']))
      \<and> (Getenv w ''LIBWEBP_PATH'' = [] \<longrightarrow>
          fst (cwebpPath v w)
            = Inr (if v = Main_logging then ''cwebp'' else ''/app/libwebp/bin/cwebp'')))
   \<and> (v = Part_000 \<longrightarrow>
        (Getenv w ''LIBWEBP_PATH'' \<noteq> [] \<and> Getwd w = Inr workDir \<longrightarrow>
           fst (cwebpPath v w)
             = Inr (Join [workDir, Getenv w ''LIBWEBP_PATH'', ''bin'', ''cwebp'']))
        \<and> (Getenv w ''LIBWEBP_PATH'' = [] \<longrightarrow>
           fst (cwebpPath v w)
             = Inl (c_JSON 500 [(''error'', ''LIBWEBP_PATH environment variable not set'')])))
   \<and> (v = Part_001 \<longrightarrow> cwebpPath v w = (Inr ''cwebp'', []))
   \<and> (ExecCombinedOutput cmd args ok \<in> set (snd (convertToWebP v w rq)) \<longrightarrow>
        fst (cwebpPath v w) = Inr cmd)"
proof (intro conjI)
  show "v = Main_logging \<or> v = Main_railway \<longrightarrow>
      (HasPrefix (Getenv w ''LIBWEBP_PATH'') ''/'' \<longrightarrow>
         cwebpPath v w = (Inr (Join [Getenv w ''LIBWEBP_PATH'', ''bin'', ''cwebp'']),
                          [OsGetenv ''LIBWEBP_PATH''])
         \<and> cwebpPath v (w\<lparr>Getwd := cwd\<rparr>) = cwebpPath v w)
      \<and> (Getenv w ''LIBWEBP_PATH'' \<noteq> [] \<and> \<not> HasPrefix (Getenv w ''LIBWEBP_PATH'') ''/''
            \<and> Getwd w = Inr workDir \<longrightarrow>
          fst (cwebpPath v w)
            = Inr (Join [workDir, Getenv w ''LIBWEBP_PATH'', ''bin'', ''cwebp'']))
      \<and> (Getenv w ''LIBWEBP_PATH'' = [] \<longrightarrow>
          fst (cwebpPath v w)
            = Inr (if v = Main_logging then ''cwebp'' else ''/app/libwebp/bin/cwebp''))"
  proof (intro impI conjI)
    assume v: "v = Main_logging \<or> v = Main_railway"
      and a: "HasPrefix (Getenv w ''LIBWEBP_PATH'') ''/''"
    from a have a': "HasPrefix (Getenv (w\<lparr>Getwd := cwd\<rparr>) ''LIBWEBP_PATH'') ''/''"
      by simp
    from v show "cwebpPath v w
        = (Inr (Join [Getenv w ''LIBWEBP_PATH'', ''bin'', ''cwebp'']), [OsGetenv ''LIBWEBP_PATH''])"
      by (auto simp: getCwebpPath_absolute [OF a])
    from v show "cwebpPath v (w\<lparr>Getwd := cwd\<rparr>) = cwebpPath v w"
      by (auto simp: getCwebpPath_absolute [OF a] getCwebpPath_absolute [OF a'])
  next
    assume v: "v = Main_logging \<or> v = Main_railway"
      and r: "Getenv w ''LIBWEBP_PATH'' \<noteq> [] \<and> \<not> HasPrefix (Getenv w ''LIBWEBP_PATH'') ''/''
            \<and> Getwd w = Inr workDir"
    from v r show "fst (cwebpPath v w)
        = Inr (Join [workDir, Getenv w ''LIBWEBP_PATH'', ''bin'', ''cwebp''])"
      by (auto simp: getCwebpPath_relative)
  next
    assume v: "v = Main_logging \<or> v = Main_railway"
      and u: "Getenv w ''LIBWEBP_PATH'' = []"
    from v show "fst (cwebpPath v w)
        = Inr (if v = Main_logging then ''cwebp'' else ''/app/libwebp/bin/cwebp'')"
      by (auto simp: getCwebpPath_unset [OF u])
  qed
  show "v = Part_000 \<longrightarrow>
        (Getenv w ''LIBWEBP_PATH'' \<noteq> [] \<and> Getwd w = Inr workDir \<longrightarrow>
           fst (cwebpPath v w)
             = Inr (Join [workDir, Getenv w ''LIBWEBP_PATH'', ''bin'', ''cwebp'']))
        \<and> (Getenv w ''LIBWEBP_PATH'' = [] \<longrightarrow>
           fst (cwebpPath v w)
             = Inl (c_JSON 500 [(''error'', ''LIBWEBP_PATH environment variable not set'')]))"
    by simp
  show "v = Part_001 \<longrightarrow> cwebpPath v w = (Inr ''cwebp'', [])"
    by simp
  show "ExecCombinedOutput cmd args ok \<in> set (snd (convertToWebP v w rq)) \<longrightarrow>
        fst (cwebpPath v w) = Inr cmd"
    by (cases rule: convertToWebP_cases [where v=v and w=w and rq=rq]) auto
qed

theorem encoder_location_policy_witness:
  "cwebpPath Main_railway (sample_world (libwebp_env ''/opt/libwebp''))
     = (Inr ''/opt/libwebp/bin/cwebp'', [OsGetenv ''LIBWEBP_PATH''])
   \<and> cwebpPath Main_railway
        ((sample_world (libwebp_env ''/opt/libwebp''))\<lparr>Getwd := Inl ''getwd: no such file or directory''\<rparr>)
       = cwebpPath Main_railway (sample_world (libwebp_env ''/opt/libwebp''))
   \<and> fst (cwebpPath Main_logging (sample_world (libwebp_env ''libwebp'')))
       = Inr ''/app/libwebp/bin/cwebp''
   \<and> fst (cwebpPath Main_logging (sample_world no_env)) = Inr ''cwebp''
   \<and> fst (cwebpPath Main_railway (sample_world no_env)) = Inr ''/app/libwebp/bin/cwebp''
   \<and> fst (cwebpPath Part_000 (sample_world (libwebp_env ''libwebp'')))
       = Inr ''/app/libwebp/bin/cwebp''
   \<and> fst (cwebpPath Part_001 (sample_world no_env)) = Inr ''cwebp''"
proof -
  let ?abs = "sample_world (libwebp_env ''/opt/libwebp'')"
  let ?rel = "sample_world (libwebp_env ''libwebp'')"
  let ?none = "sample_world no_env"
  let ?args = "[''-q'', ''50'', ''/tmp/webp-convert-1234/photo.JPG'', ''-o'',
                ''/tmp/webp-convert-1234/photo.webp'']"
  have abs: "Getenv ?abs ''LIBWEBP_PATH'' = ''/opt/libwebp''"
    and rel: "Getenv ?rel ''LIBWEBP_PATH'' = ''libwebp''"
    and none: "Getenv ?none ''LIBWEBP_PATH'' = []"
    and wd: "Getwd ?rel = Inr ''/app''"
    by (simp_all add: sample_world_def libwebp_env_def no_env_def)
  have pre: "HasPrefix ''/opt/libwebp'' ''/''" "\<not> HasPrefix ''libwebp'' ''/''"
    by (simp_all add: HasPrefix_def)
  have ex: "ExecCombinedOutput ''cwebp'' ?args True
      \<in> set (snd (convertToWebP Part_001 ?none sample_request))"
    by (simp add: sample_run)
  have c1: "cwebpPath Main_railway ?abs
      = (Inr ''/opt/libwebp/bin/cwebp'', [OsGetenv ''LIBWEBP_PATH''])
    \<and> cwebpPath Main_railway (?abs\<lparr>Getwd := Inl ''getwd: no such file or directory''\<rparr>)
      = cwebpPath Main_railway ?abs"
    using encoder_location_policy
      [of Main_railway ?abs "Inl ''getwd: no such file or directory''"] abs pre
    by (simp add: sample_joins)
  have c2: "fst (cwebpPath Main_logging ?rel) = Inr ''/app/libwebp/bin/cwebp''"
    using encoder_location_policy [of Main_logging ?rel _ "''/app''"] rel wd pre
    by (simp add: sample_joins)
  have c3: "fst (cwebpPath Main_logging ?none) = Inr ''cwebp''"
    using encoder_location_policy [of Main_logging ?none] none by simp
  have c4: "fst (cwebpPath Main_railway ?none) = Inr ''/app/libwebp/bin/cwebp''"
    using encoder_location_policy [of Main_railway ?none] none by simp
  have c5: "fst (cwebpPath Part_000 ?rel) = Inr ''/app/libwebp/bin/cwebp''"
    using encoder_location_policy [of Part_000 ?rel _ "''/app''"] rel wd
    by (simp add: sample_joins)
  have c6: "fst (cwebpPath Part_001 ?none) = Inr ''cwebp''"
    using encoder_location_policy
      [of Part_001 ?none _ _ "''cwebp''" ?args True sample_request] ex
    by blast
  from c1 c2 c3 c4 c5 c6 show ?thesis by blast
qed

text \<open>
  The claim as stated fails in \<^verbatim>\<open>part_000\<close>: with \<^verbatim>\<open>LIBWEBP_PATH=/opt/libwebp\<close> and the
  working directory \<^verbatim>\<open>/app\<close> the encoder is \<^verbatim>\<open>/app/opt/libwebp/bin/cwebp\<close>, not
  \<^verbatim>\<open>/opt/libwebp/bin/cwebp\<close>; and with no \<^verbatim>\<open>LIBWEBP_PATH\<close> there is no fallback.
\<close>

theorem part_000_joins_every_override_to_cwd:
  "HasPrefix (Getenv (sample_world (libwebp_env ''/opt/libwebp'')) ''LIBWEBP_PATH'') ''/''
   \<and> Join [Getenv (sample_world (libwebp_env ''/opt/libwebp'')) ''LIBWEBP_PATH'', ''bin'', ''cwebp'']
       = ''/opt/libwebp/bin/cwebp''
   \<and> fst (cwebpPath Part_000 (sample_world (libwebp_env ''/opt/libwebp'')))
       = Inr ''/app/opt/libwebp/bin/cwebp''
   \<and> Getenv (sample_world no_env) ''LIBWEBP_PATH'' = []
   \<and> fst (cwebpPath Part_000 (sample_world no_env))
       = Inl (c_JSON 500 [(''error'', ''LIBWEBP_PATH environment variable not set'')])"
  by code_simp

subsection \<open>A request without the image\<close>

text \<open>
  Claim C4. A \<^verbatim>\<open>POST /convert\<close> for which \<^verbatim>\<open>FormFile("image")\<close> returns an error (no such
  field, or a form that cannot be parsed) is answered with status 400 and the JSON
  object \<^verbatim>\<open>{"error":"No image file provided"}\<close>; the handler makes no call but, in the
  first program, one to the log: no temporary directory or file is created, and the
  file system is unchanged. This holds in the four programs.
\<close>

theorem missing_image_rejected:
  assumes "reqMethod rq = ''POST''" "reqPath rq = ''/convert''"
    and "FormFile rq ''image'' = Inl err"
    and "serve debugHandler v w rq = (r, tr)"
  shows "status r = 400
    \<and> payload r = JSON [(''error'', ''No image file provided'')]
    \<and> header r ''Content-Type'' = Some ''application/json; charset=utf-8''
    \<and> tr = logf v ''Error getting form file: %v'' [S err]
    \<and> (\<forall>e \<in> set tr. \<exists>fmt args. e = Log fmt args)
    \<and> fs_run w fs tr = fs"
proof -
  from assms(1,2,4) obtain r0 where r0: "convertToWebP v w rq = (r0, tr)"
    "status r = status r0" "payload r = payload r0"
    "header r ''Content-Type'' = header r0 ''Content-Type''"
    by (rule serve_convert)
  from assms(3) have "convertToWebP v w rq =
      (c_JSON 400 [(''error'', ''No image file provided'')],
       logf v ''Error getting form file: %v'' [S err])"
    by (simp add: convertToWebP_def)
  with r0 show ?thesis
    by (auto simp: c_JSON_def header_def logf_def fs_run_def)
qed

theorem missing_image_rejected_witness:
  "status \<lparr>status = 400,
       headers = [(''Content-Type'', ''application/json; charset=utf-8'')],
       payload = JSON [(''error'', ''No image file provided'')]\<rparr> = 400
   \<and> [Log ''Error getting form file: %v'' [S ''http: no such file'']]
        = logf Main_logging ''Error getting form file: %v'' [S ''http: no such file'']
   \<and> fs_run (sample_world no_env) [''/etc/hosts'']
        [Log ''Error getting form file: %v'' [S ''http: no such file'']] = [''/etc/hosts'']"
proof -
  have "FormFile empty_request ''image'' = Inl ''http: no such file''"
    by (simp add: empty_request_def)
  from missing_image_rejected
    [OF sample_request_route(3,4) this empty_served, where fs = "[''/etc/hosts'']"]
  show ?thesis by blast
qed

subsection \<open>What a failure response carries\<close>

text \<open>
  Claim C5. For a \<^verbatim>\<open>POST /convert\<close>, in the four programs, stated from what the calls
  return. When the upload is there, the directory is made, the upload is saved, the
  encoder is found, and \<^verbatim>\<open>CombinedOutput\<close> returns an error with the captured output
  \<open>out\<close> (a non-zero exit, or a process that did not start): the encoder was run, the
  status is 500 and the field \<^verbatim>\<open>details\<close> of the JSON body is \<open>out\<close>, unchanged. When
  \<^verbatim>\<open>FormFile\<close> returns an error, or \<^verbatim>\<open>os.MkdirTemp\<close>, \<^verbatim>\<open>os.Create\<close>, \<^verbatim>\<open>io.Copy\<close> or
  \<^verbatim>\<open>os.ReadFile\<close> does: the body is the object with the one field \<^verbatim>\<open>error\<close> and a fixed
  message, and no field \<^verbatim>\<open>details\<close>. Every call whose error the handler reads and that
  failed ends in a JSON response with status 500: no error leaves the handler otherwise.
\<close>

theorem encoder_failure_details:
  assumes "reqMethod rq = ''POST''" "reqPath rq = ''/convert''"
    and "serve debugHandler v w rq = (r, tr)"
  shows
    "(FormFile rq ''image'' = Inr up
        \<and> MkdirTemp w [] ''webp-convert-*'' = Inr tempDir
        \<and> Create w (Join [tempDir, Filename up]) = None
        \<and> Copy w (Join [tempDir, Filename up]) (content up) = None
        \<and> cwebpPath v w = (Inr cwebp, evs)
        \<and> CombinedOutput w cwebp
             [''-q'', quality v rq, Join [tempDir, Filename up], ''-o'',
              Join [tempDir, outputFilename (Filename up)]] = (out, Some err) \<longrightarrow>
        status r = 500
        \<and> payload r = JSON [(''details'', out), (''error'', ''Failed to convert image'')]
        \<and> ExecCombinedOutput cwebp
             [''-q'', quality v rq, Join [tempDir, Filename up], ''-o'',
              Join [tempDir, outputFilename (Filename up)]] False \<in> set tr)
     \<and> (FormFile rq ''image'' = Inl noImage \<longrightarrow>
          status r = 400 \<and> payload r = JSON [(''error'', ''No image file provided'')])
     \<and> (FormFile rq ''image'' = Inr up
          \<and> MkdirTemp w [] ''webp-convert-*'' = Inl noDir \<longrightarrow>
          status r = 500
          \<and> payload r = JSON [(''error'', ''Failed to create temp directory'')])
     \<and> (FormFile rq ''image'' = Inr up
          \<and> MkdirTemp w [] ''webp-convert-*'' = Inr tempDir
          \<and> Create w (Join [tempDir, Filename up]) = Some noCreate \<longrightarrow>
          status r = 500
          \<and> payload r = JSON [(''error'', ''Failed to save uploaded file'')])
     \<and> (FormFile rq ''image'' = Inr up
          \<and> MkdirTemp w [] ''webp-convert-*'' = Inr tempDir
          \<and> Create w (Join [tempDir, Filename up]) = None
          \<and> Copy w (Join [tempDir, Filename up]) (content up) = Some noCopy \<longrightarrow>
          status r = 500
          \<and> payload r = JSON [(''error'', ''Failed to copy uploaded file'')])
     \<and> (FormFile rq ''image'' = Inr up
          \<and> MkdirTemp w [] ''webp-convert-*'' = Inr tempDir
          \<and> Create w (Join [tempDir, Filename up]) = None
          \<and> Copy w (Join [tempDir, Filename up]) (content up) = None
          \<and> cwebpPath v w = (Inr cwebp, evs)
          \<and> CombinedOutput w cwebp
               [''-q'', quality v rq, Join [tempDir, Filename up], ''-o'',
                Join [tempDir, outputFilename (Filename up)]] = (out, None)
          \<and> ReadFile w (Join [tempDir, outputFilename (Filename up)]) = Inl noRead \<longrightarrow>
          status r = 500
          \<and> payload r = JSON [(''error'', ''Failed to read converted file'')])
     \<and> ((\<exists>e \<in> set tr. failed e) \<longrightarrow>
          status r = 500 \<and> (\<exists>obj. payload r = JSON obj))"
proof -
  from assms obtain r0 where r0: "convertToWebP v w rq = (r0, tr)"
    and st: "status r = status r0" and pl: "payload r = payload r0"
    by (rule serve_convert)
  from r0 have f: "r0 = fst (convertToWebP v w rq)" and t: "tr = snd (convertToWebP v w rq)"
    by simp_all
  show ?thesis
  proof (intro conjI impI; (elim conjE)?)
    assume "FormFile rq ''image'' = Inr up"
      "MkdirTemp w [] ''webp-convert-*'' = Inr tempDir"
      "Create w (Join [tempDir, Filename up]) = None"
      "Copy w (Join [tempDir, Filename up]) (content up) = None"
      "cwebpPath v w = (Inr cwebp, evs)"
      "CombinedOutput w cwebp
         [''-q'', quality v rq, Join [tempDir, Filename up], ''-o'',
          Join [tempDir, outputFilename (Filename up)]] = (out, Some err)"
    note run = convert_failed [OF this]
    from run(1) show "status r = 500" by (simp add: st f c_JSON_def)
    from run(1) show "payload r
        = JSON [(''details'', out), (''error'', ''Failed to convert image'')]"
      by (simp add: pl f c_JSON_def)
    from run(2) show "ExecCombinedOutput cwebp
         [''-q'', quality v rq, Join [tempDir, Filename up], ''-o'',
          Join [tempDir, outputFilename (Filename up)]] False \<in> set tr"
      by (simp add: t)
  next
    assume "FormFile rq ''image'' = Inl noImage"
    note run = convert_no_image [OF this, of v w]
    from run show "status r = 400" by (simp add: st f c_JSON_def)
    from run show "payload r = JSON [(''error'', ''No image file provided'')]"
      by (simp add: pl f c_JSON_def)
  next
    assume "FormFile rq ''image'' = Inr up"
      "MkdirTemp w [] ''webp-convert-*'' = Inl noDir"
    note run = convert_no_temp_dir [OF this, of v]
    from run show "status r = 500" by (simp add: st f c_JSON_def)
    from run show "payload r = JSON [(''error'', ''Failed to create temp directory'')]"
      by (simp add: pl f c_JSON_def)
  next
    assume "FormFile rq ''image'' = Inr up"
      "MkdirTemp w [] ''webp-convert-*'' = Inr tempDir"
      "Create w (Join [tempDir, Filename up]) = Some noCreate"
    note run = convert_no_create [OF this, of v]
    from run show "status r = 500" by (simp add: st f c_JSON_def)
    from run show "payload r = JSON [(''error'', ''Failed to save uploaded file'')]"
      by (simp add: pl f c_JSON_def)
  next
    assume "FormFile rq ''image'' = Inr up"
      "MkdirTemp w [] ''webp-convert-*'' = Inr tempDir"
      "Create w (Join [tempDir, Filename up]) = None"
      "Copy w (Join [tempDir, Filename up]) (content up) = Some noCopy"
    note run = convert_no_copy [OF this, of v]
    from run show "status r = 500" by (simp add: st f c_JSON_def)
    from run show "payload r = JSON [(''error'', ''Failed to copy uploaded file'')]"
      by (simp add: pl f c_JSON_def)
  next
    assume "FormFile rq ''image'' = Inr up"
      "MkdirTemp w [] ''webp-convert-*'' = Inr tempDir"
      "Create w (Join [tempDir, Filename up]) = None"
      "Copy w (Join [tempDir, Filename up]) (content up) = None"
      "cwebpPath v w = (Inr cwebp, evs)"
      "CombinedOutput w cwebp
         [''-q'', quality v rq, Join [tempDir, Filename up], ''-o'',
          Join [tempDir, outputFilename (Filename up)]] = (out, None)"
      "ReadFile w (Join [tempDir, outputFilename (Filename up)]) = Inl noRead"
    note run = convert_unreadable [OF this]
    from run show "status r = 500" by (simp add: st f c_JSON_def)
    from run show "payload r = JSON [(''error'', ''Failed to read converted file'')]"
      by (simp add: pl f c_JSON_def)
  next
    assume "\<exists>e \<in> set tr. failed e"
    then obtain e where "e \<in> set (snd (convertToWebP v w rq))" "failed e"
      using t by blast
    from convert_failed_call [OF this] show "status r = 500"
      by (simp add: st f)
    from convert_failed_call [OF \<open>e \<in> set (snd (convertToWebP v w rq))\<close> \<open>failed e\<close>]
    show "\<exists>obj. payload r = JSON obj"
      by (simp add: pl f)
  qed
qed

theorem encoder_failure_details_witness:
  "status (fst (serve (\<lambda>w. notFound) Part_001 failing_world sample_request)) = 500
   \<and> payload (fst (serve (\<lambda>w. notFound) Part_001 failing_world sample_request))
       = JSON [(''details'', ''cannot open input''), (''error'', ''Failed to convert image'')]
   \<and> payload (fst (serve (\<lambda>w. notFound) Part_001 failing_world empty_request))
       = JSON [(''error'', ''No image file provided'')]
   \<and> payload (fst (serve (\<lambda>w. notFound) Part_001
         ((sample_world no_env)\<lparr>MkdirTemp := (\<lambda>d p. Inl ''mkdir: no space left on device'')\<rparr>)
         sample_request))
       = JSON [(''error'', ''Failed to create temp directory'')]
   \<and> payload (fst (serve (\<lambda>w. notFound) Part_001
         ((sample_world no_env)\<lparr>Create := (\<lambda>p. Some ''open: permission denied'')\<rparr>)
         sample_request))
       = JSON [(''error'', ''Failed to save uploaded file'')]
   \<and> payload (fst (serve (\<lambda>w. notFound) Part_001
         ((sample_world no_env)\<lparr>Copy := (\<lambda>p b. Some ''write: no space left on device'')\<rparr>)
         sample_request))
       = JSON [(''error'', ''Failed to copy uploaded file'')]
   \<and> payload (fst (serve (\<lambda>w. notFound) Part_001
         ((sample_world no_env)\<lparr>ReadFile := (\<lambda>p. Inl ''open: no such file or directory'')\<rparr>)
         sample_request))
       = JSON [(''error'', ''Failed to read converted file'')]"
proof -
  let ?d = "''/tmp/webp-convert-1234''"
  let ?mk = "(sample_world no_env)\<lparr>MkdirTemp := (\<lambda>d p. Inl ''mkdir: no space left on device'')\<rparr>"
  let ?cr = "(sample_world no_env)\<lparr>Create := (\<lambda>p. Some ''open: permission denied'')\<rparr>"
  let ?cp = "(sample_world no_env)\<lparr>Copy := (\<lambda>p b. Some ''write: no space left on device'')\<rparr>"
  let ?rd = "(sample_world no_env)\<lparr>ReadFile := (\<lambda>p. Inl ''open: no such file or directory'')\<rparr>"
  note route = sample_request_route
  have up: "FormFile sample_request ''image'' = Inr sample_upload"
    by (simp add: sample_request_def)
  have no: "FormFile empty_request ''image'' = Inl ''http: no such file''"
    by (simp add: empty_request_def)
  have enc: "cwebpPath Part_001 w = (Inr ''cwebp'', [])" for w
    by simp
  have c1: "status (fst (serve (\<lambda>w. notFound) Part_001 failing_world sample_request)) = 500
    \<and> payload (fst (serve (\<lambda>w. notFound) Part_001 failing_world sample_request))
       = JSON [(''details'', ''cannot open input''), (''error'', ''Failed to convert image'')]"
    using encoder_failure_details [OF route(1,2) prod.collapse [symmetric],
        where up = sample_upload and tempDir = ?d and cwebp = "''cwebp''" and evs = "[]"
          and out = "''cannot open input''" and err = "''exit status 255''"
          and v = Part_001 and w = failing_world and debugHandler = "\<lambda>w. notFound"]
      up enc [of failing_world]
    by (simp add: failing_world_def sample_world_def)
  have c2: "payload (fst (serve (\<lambda>w. notFound) Part_001 failing_world empty_request))
       = JSON [(''error'', ''No image file provided'')]"
    using encoder_failure_details [OF route(3,4) prod.collapse [symmetric],
        where noImage = "''http: no such file''"
          and v = Part_001 and w = failing_world and debugHandler = "\<lambda>w. notFound"]
      no
    by simp
  have c3: "payload (fst (serve (\<lambda>w. notFound) Part_001 ?mk sample_request))
       = JSON [(''error'', ''Failed to create temp directory'')]"
    using encoder_failure_details [OF route(1,2) prod.collapse [symmetric],
        where up = sample_upload and noDir = "''mkdir: no space left on device''"
          and v = Part_001 and w = ?mk and debugHandler = "\<lambda>w. notFound"]
      up
    by simp
  have c4: "payload (fst (serve (\<lambda>w. notFound) Part_001 ?cr sample_request))
       = JSON [(''error'', ''Failed to save uploaded file'')]"
    using encoder_failure_details [OF route(1,2) prod.collapse [symmetric],
        where up = sample_upload and tempDir = ?d and noCreate = "''open: permission denied''"
          and v = Part_001 and w = ?cr and debugHandler = "\<lambda>w. notFound"]
      up
    by (simp add: sample_world_def)
  have c5: "payload (fst (serve (\<lambda>w. notFound) Part_001 ?cp sample_request))
       = JSON [(''error'', ''Failed to copy uploaded file'')]"
    using encoder_failure_details [OF route(1,2) prod.collapse [symmetric],
        where up = sample_upload and tempDir = ?d and noCopy = "''write: no space left on device''"
          and v = Part_001 and w = ?cp and debugHandler = "\<lambda>w. notFound"]
      up
    by (simp add: sample_world_def)
  have c6: "payload (fst (serve (\<lambda>w. notFound) Part_001 ?rd sample_request))
       = JSON [(''error'', ''Failed to read converted file'')]"
    using encoder_failure_details [OF route(1,2) prod.collapse [symmetric],
        where up = sample_upload and tempDir = ?d and cwebp = "''cwebp''" and evs = "[]"
          and out = "''Saving file''" and noRead = "''open: no such file or directory''"
          and v = Part_001 and w = ?rd and debugHandler = "\<lambda>w. notFound"]
      up enc [of ?rd]
    by (simp add: sample_world_def)
  from c1 c2 c3 c4 c5 c6 show ?thesis by blast
qed

subsection \<open>The temporary directory\<close>

text \<open>
  Claim C6. In the four programs, once \<^verbatim>\<open>os.MkdirTemp\<close> has returned the directory, every
  run of \<open>convertToWebP\<close>, whatever step fails or none, ends with the deferred
  \<^verbatim>\<open>os.RemoveAll\<close> of that directory (and then the close of the upload), so nothing inside
  the directory is on disk afterwards. For an uploaded name that is one path element,
  the input file and the output file are inside the directory. If moreover the encoder
  wrote nothing outside the directory (or if the name is not such an element and
  \<^verbatim>\<open>os.Create\<close> refuses it), every path on disk after the request was there before it:
  nothing made for the request remains. \<^verbatim>\<open>os.RemoveAll\<close> is taken to remove what it is
  asked to: the source discards its result.
\<close>

theorem temp_dir_removed:
  assumes "FormFile rq ''image'' = Inr up"
    and "MkdirTemp w [] ''webp-convert-*'' = Inr tempDir"
    and "tr = snd (convertToWebP v w rq)"
  shows
    "(\<exists>calls. tr = calls @ [OsRemoveAll tempDir, UploadClose])
     \<and> (\<forall>p \<in> set (fs_run w fs tr). \<not> inside tempDir p)
     \<and> (plain (Filename up) \<longrightarrow>
          inside tempDir (Join [tempDir, Filename up])
          \<and> inside tempDir (Join [tempDir, outputFilename (Filename up)]))
     \<and> ((plain (Filename up) \<or> Create w (Join [tempDir, Filename up]) \<noteq> None)
          \<and> (\<forall>cmd args ok. ExecCombinedOutput cmd args ok \<in> set tr \<longrightarrow>
                (\<forall>p \<in> set (Written w cmd args). inside tempDir p)) \<longrightarrow>
          set (fs_run w fs tr) \<subseteq> set fs)"
proof -
  have last: "\<exists>calls. tr = calls @ [OsRemoveAll tempDir, UploadClose]"
    using last_calls [OF assms] by (rule ends_with)
  then have gone: "\<forall>p \<in> set (fs_run w fs tr). \<not> inside tempDir p"
    using fs_run_removed by blast
  have inside: "inside tempDir (Join [tempDir, Filename up])
      \<and> inside tempDir (Join [tempDir, outputFilename (Filename up)])"
    if "plain (Filename up)"
    using that by (simp add: inside_Join plain_outputFilename)
  have "set (fs_run w fs tr) \<subseteq> set fs"
    if pl: "plain (Filename up) \<or> Create w (Join [tempDir, Filename up]) \<noteq> None"
      and wr: "\<forall>cmd args ok. ExecCombinedOutput cmd args ok \<in> set tr \<longrightarrow>
                (\<forall>p \<in> set (Written w cmd args). inside tempDir p)"
  proof -
    have "set (concat (map (added w) tr)) \<subseteq> {p. inside tempDir p}"
    proof (cases "Create w (Join [tempDir, Filename up]) \<noteq> None")
      case True
      from create_failed [OF assms True] inside_refl [of tempDir]
      show ?thesis by simp
    next
      case False
      with pl have pl: "plain (Filename up)" by blast
      show ?thesis
      proof (cases "\<exists>cmd args ok. ExecCombinedOutput cmd args ok \<in> set tr")
        case True
        then obtain cmd args ok where ex: "ExecCombinedOutput cmd args ok \<in> set tr"
          by blast
        with wr have "\<forall>p \<in> set (Written w cmd args). inside tempDir p" by blast
        with exec_call [OF assms ex] inside [OF pl] inside_refl [of tempDir]
        show ?thesis by auto
      next
        case False
        then have "\<forall>cmd args ok. ExecCombinedOutput cmd args ok \<notin> set tr" by blast
        from no_exec_call [OF assms this] inside [OF pl] inside_refl [of tempDir]
        show ?thesis by auto
      qed
    qed
    then have "\<forall>e \<in> set tr. set (added w e) \<subseteq> {p. inside tempDir p}"
      by (rule added_subset)
    then have "set (fs_run w fs tr) \<subseteq> set fs \<union> {p. inside tempDir p}"
      by (rule fs_run_subset)
    with gone show ?thesis by blast
  qed
  with last gone inside show ?thesis by blast
qed

theorem temp_dir_removed_witness:
  "(\<exists>calls. snd (convertToWebP Part_001 (sample_world no_env) sample_request)
       = calls @ [OsRemoveAll ''/tmp/webp-convert-1234'', UploadClose])
   \<and> inside ''/tmp/webp-convert-1234'' (Join [''/tmp/webp-convert-1234'', Filename sample_upload])
   \<and> inside ''/tmp/webp-convert-1234''
        (Join [''/tmp/webp-convert-1234'', outputFilename (Filename sample_upload)])
   \<and> set (fs_run (sample_world no_env) [''/etc/hosts'']
             (snd (convertToWebP Part_001 (sample_world no_env) sample_request)))
        \<subseteq> set [''/etc/hosts'']"
proof -
  let ?W = "sample_world no_env"
  let ?tr = "snd (convertToWebP Part_001 ?W sample_request)"
  have h1: "FormFile sample_request ''image'' = Inr sample_upload"
    by (simp add: sample_request_def)
  have h2: "MkdirTemp ?W [] ''webp-convert-*'' = Inr ''/tmp/webp-convert-1234''"
    by (simp add: sample_world_def)
  have pl: "plain (Filename sample_upload)"
    by (simp add: plain_def sample_upload_def)
  have written: "Written ?W cmd args = drop 4 args" for cmd args
    by (simp add: sample_world_def)
  have wr: "\<forall>cmd args ok. ExecCombinedOutput cmd args ok \<in> set ?tr \<longrightarrow>
      (\<forall>p \<in> set (Written ?W cmd args). inside ''/tmp/webp-convert-1234'' p)"
    unfolding sample_run written by (simp add: sample_inside)
  from temp_dir_removed [OF h1 h2 refl, where fs = "[''/etc/hosts'']"] pl wr
  show ?thesis by blast
qed

subsection \<open>The response to a conversion\<close>




subsection \<open>Statuses\<close>

text \<open>
  Claim C8. Every response to a \<^verbatim>\<open>POST /convert\<close>, in the four programs, is of one of
  three kinds. Status 200 with the bytes read from the output file: then the image was
  there and no call failed. Status 400 with a JSON body holding the field \<^verbatim>\<open>error\<close>:
  exactly when \<^verbatim>\<open>FormFile("image")\<close> returned an error. Status 500 with a JSON body
  holding \<^verbatim>\<open>error\<close> and possibly \<^verbatim>\<open>details\<close>: every other failure. So a request that fails
  at any step gets a JSON error with status 400 or 500 and never image bytes.
\<close>

theorem failures_are_json_errors:
  assumes "reqMethod rq = ''POST''" "reqPath rq = ''/convert''"
    and "serve debugHandler v w rq = (r, tr)"
  shows
    "(status r = 200
        \<and> (\<exists>p bytes. OsReadFile p True \<in> set tr \<and> ReadFile w p = Inr bytes
              \<and> payload r = Data bytes)
        \<and> \<not> isl (FormFile rq ''image'') \<and> (\<forall>e \<in> set tr. \<not> failed e))
     \<or> (status r = 400 \<and> isl (FormFile rq ''image'')
        \<and> header r ''Content-Type'' = Some ''application/json; charset=utf-8''
        \<and> (\<exists>msg. payload r = JSON [(''error'', msg)]))
     \<or> (status r = 500 \<and> \<not> isl (FormFile rq ''image'')
        \<and> header r ''Content-Type'' = Some ''application/json; charset=utf-8''
        \<and> ((\<exists>msg. payload r = JSON [(''error'', msg)])
           \<or> (\<exists>msg details. payload r = JSON [(''details'', details), (''error'', msg)])))"
proof -
  from assms obtain r0 where r0: "convertToWebP v w rq = (r0, tr)"
    "status r = status r0" "payload r = payload r0"
    "header r ''Content-Type'' = header r0 ''Content-Type''"
    by (rule serve_convert)
  show ?thesis
    using r0
    by (cases rule: convertToWebP_cases [where v=v and w=w and rq=rq])
      (auto simp: c_JSON_def header_def)
qed

theorem failures_are_json_errors_witness:
  "status \<lparr>status = 500,
       headers = [(''Content-Type'', ''application/json; charset=utf-8'')],
       payload = JSON [(''details'', ''cannot open input''),
                       (''error'', ''Failed to convert image'')]\<rparr> = 500
   \<and> \<not> isl (FormFile sample_request ''image'')
   \<and> (\<exists>msg details.
        payload \<lparr>status = 500,
          headers = [(''Content-Type'', ''application/json; charset=utf-8'')],
          payload = JSON [(''details'', ''cannot open input''),
                          (''error'', ''Failed to convert image'')]\<rparr>
        = JSON [(''details'', details), (''error'', msg)])"
  using failures_are_json_errors [OF sample_request_route(1,2) failing_served]
  by simp

subsection \<open>The health check\<close>

text \<open>
  Claim C9, as the code has it. In the two programs of \<^verbatim>\<open>main.go\<close> and in \<^verbatim>\<open>part_001\<close>,
  \<^verbatim>\<open>GET /health\<close> is answered with status 200 and the JSON object \<^verbatim>\<open>{"status":"ok"}\<close>;
  the handler makes no call. In \<^verbatim>\<open>part_000\<close>, which registers no such route, the answer
  is the framework's 404. In the four programs the answer is the same in every world,
  whether or not the encoder can be found or run.
\<close>

theorem health_is_ok:
  assumes "reqMethod rq = ''GET''" "reqPath rq = ''/health''"
  shows
    "(v \<noteq> Part_000 \<longrightarrow>
        status (fst (serve debugHandler v w rq)) = 200
        \<and> payload (fst (serve debugHandler v w rq)) = JSON [(''status'', ''ok'')]
        \<and> header (fst (serve debugHandler v w rq)) ''Content-Type''
            = Some ''application/json; charset=utf-8''
        \<and> snd (serve debugHandler v w rq) = [])
     \<and> (v = Part_000 \<longrightarrow> serve debugHandler v w rq = notFound)
     \<and> serve debugHandler v w rq = serve debugHandler v w' rq"
  using assms
  by (cases v)
    (simp_all add: serve_def health_route healthHandler_def middleware_def c_JSON_def
      header_def corsHeaders_def POST_def GET_def gin_Default_def)

theorem health_is_ok_witness:
  "status (fst (serve (\<lambda>w. notFound) Main_logging failing_world health_request)) = 200
   \<and> payload (fst (serve (\<lambda>w. notFound) Main_logging failing_world health_request))
       = JSON [(''status'', ''ok'')]
   \<and> snd (serve (\<lambda>w. notFound) Main_logging failing_world health_request) = []
   \<and> serve (\<lambda>w. notFound) Main_logging failing_world health_request
       = serve (\<lambda>w. notFound) Main_logging (sample_world no_env) health_request
   \<and> status (fst (serve (\<lambda>w. notFound) Main_logging failing_world sample_request)) = 500"
proof -
  have h: "reqMethod health_request = ''GET''" "reqPath health_request = ''/health''"
    by (simp_all add: health_request_def)
  have v: "Main_logging \<noteq> Part_000" by simp
  have f: "status (fst (serve (\<lambda>w. notFound) Main_logging failing_world sample_request)) = 500"
    by (simp add: failing_served)
  from health_is_ok [OF h, of Main_logging "\<lambda>w. notFound" failing_world "sample_world no_env"] v f
  show ?thesis by blast
qed

text \<open>The claim as stated, for every program, fails in \<^verbatim>\<open>part_000\<close>: the status is 404.\<close>

theorem part_000_has_no_health_route:
  "reqMethod health_request = ''GET'' \<and> reqPath health_request = ''/health''
   \<and> status (fst (serve (\<lambda>w. notFound) Part_000 (sample_world no_env) health_request)) = 404"
  by code_simp

subsection \<open>The multipart memory limit\<close>

text \<open>
  Claim C10. In each of the four programs the engine that \<^verbatim>\<open>router.Run\<close> serves with has
  \<^verbatim>\<open>MaxMultipartMemory\<close> set to \<^verbatim>\<open>10 << 20\<close>, that is 10485760 bytes (10 MiB), a value of
  the field's type \<^verbatim>\<open>int64\<close>.
\<close>

theorem upload_limit_configured:
  "MaxMultipartMemory (router v) = 10 * 2 ^ 20
   \<and> MaxMultipartMemory (router v) = 10485760
   \<and> MaxMultipartMemory (router v) < 2 ^ 63"
  by (cases v) (simp_all add: POST_def GET_def gin_Default_def)

end
